theory Spec2Isabelle
  imports Main
begin

section \<open>JavaScript values and objects\<close>

text \<open>
  The three data-access modules store plain JavaScript objects. A property value is one
  of the JSON values the code writes: \<open>null\<close>, a boolean, a number or a string.
  The numbers of the stores are integers (ids, \<open>Date.now()\<close> readings, the flags 0
  and 1 of SQLite): \<open>JNum n\<close> is the number whose value is the integer \<open>n\<close>. An
  object is a finite map from property names to values; reading a property the object
  does not have gives \<open>undefined\<close>, which is \<open>None\<close> here.
\<close>

datatype jsval = JNull | JBool bool | JNum int | JStr string

type_synonym obj = "string \<rightharpoonup> jsval"

text \<open>Truthiness, as \<open>if (x)\<close>, \<open>!x\<close> and \<open>x || ''\<close> use it.\<close>

fun truthy :: "jsval option \<Rightarrow> bool" where
  "truthy None = False"
| "truthy (Some JNull) = False"
| "truthy (Some (JBool b)) = b"
| "truthy (Some (JNum n)) = (n \<noteq> 0)"
| "truthy (Some (JStr s)) = (s \<noteq> [])"

text \<open>
  \<open>ToString\<close> of a number. For an integer of magnitude below \<open>2 ^ 53\<close> it is the sign
  and the decimal digits. From \<open>2 ^ 53\<close> on it is the shortest digits that read back as
  the same double, whose last digit the language leaves to the engine, in exponent form
  from \<open>10 ^ 21\<close> on: these texts are outside the model, and \<open>showInt\<close> says
  nothing about them.
\<close>

fun showNat :: "nat \<Rightarrow> string" where
  "showNat n = (if n < 10 then [char_of (48 + n)] else showNat (n div 10) @ [char_of (48 + n mod 10)])"

definition showInt :: "int \<Rightarrow> string" where
  "showInt i =
     (if \<bar>i\<bar> < 2 ^ 53
      then (if i < 0 then CHR ''-'' # showNat (nat (- i)) else showNat (nat i))
      else undefined)"

text \<open>\<open>ToString\<close>, as a template literal \<open>`${x}`\<close> applies it.\<close>

fun toString :: "jsval option \<Rightarrow> string" where
  "toString None = ''undefined''"
| "toString (Some JNull) = ''null''"
| "toString (Some (JBool b)) = (if b then ''true'' else ''false'')"
| "toString (Some (JNum n)) = showInt n"
| "toString (Some (JStr s)) = s"

text \<open>
  \<open>Array.prototype.join\<close> turns \<open>null\<close> and \<open>undefined\<close> elements into the
  empty string and every other element into its \<open>ToString\<close>.
\<close>

fun joinElem :: "jsval option \<Rightarrow> string" where
  "joinElem None = []"
| "joinElem (Some JNull) = []"
| "joinElem (Some v) = toString (Some v)"

text \<open>\<open>x || ''\<close>.\<close>

definition orEmpty :: "jsval option \<Rightarrow> jsval option" where
  "orEmpty v = (if truthy v then v else Some (JStr []))"

section \<open>Arithmetic on numbers\<close>

text \<open>
  A JavaScript number is an IEEE 754 double: a sign, a significand of at most 53 bits and
  a power of two. The result of a sum or a product is the exact result rounded to the
  nearest double, a tie going to the even significand. \<open>bitLength x\<close> is the number of
  bits of \<open>x\<close>; \<open>roundToDouble x\<close> keeps the 53 leading bits of \<open>x\<close>, rounded in that
  way (a natural number below \<open>2 ^ 53\<close> is a double as it stands).
\<close>

fun bitLength :: "nat \<Rightarrow> nat" where
  "bitLength n = (if n = 0 then 0 else Suc (bitLength (n div 2)))"

declare bitLength.simps [simp del]

definition roundToDouble :: "nat \<Rightarrow> nat" where
  "roundToDouble x =
     (if bitLength x \<le> 53 then x
      else (let s = bitLength x - 53;
                q = x div 2 ^ s;
                r = x mod 2 ^ s;
                h = 2 ^ (s - 1)
            in (if h < r \<or> (r = h \<and> odd q) then q + 1 else q) * 2 ^ s))"

text \<open>The double nearest to an integer: what a sum of two integer doubles gives.\<close>

definition toDouble :: "int \<Rightarrow> int" where
  "toDouble i = (if i < 0 then - int (roundToDouble (nat (- i))) else int (roundToDouble (nat i)))"

section \<open>Strings\<close>

text \<open>
  Text is the list of the bytes of its UTF-8 form: splitting at a comma or a line feed
  and comparing two texts give the same on the bytes as on the code units of the
  JavaScript string. \<open>trim\<close> removes from both ends the code points that are
  \<open>WhiteSpace\<close> or \<open>LineTerminator\<close> in ECMAScript: U+0009 to U+000D, U+0020,
  U+00A0, U+1680, U+2000 to U+200A, U+2028, U+2029, U+202F, U+205F, U+3000 and U+FEFF.
\<close>

definition whiteSpaces :: "string list" where
  "whiteSpaces =
     [[CHR 0x09], [CHR 0x0A], [CHR 0x0B], [CHR 0x0C], [CHR 0x0D], [CHR 0x20],
      [CHR 0xC2, CHR 0xA0],
      [CHR 0xE1, CHR 0x9A, CHR 0x80],
      [CHR 0xE2, CHR 0x80, CHR 0x80], [CHR 0xE2, CHR 0x80, CHR 0x81], [CHR 0xE2, CHR 0x80, CHR 0x82],
      [CHR 0xE2, CHR 0x80, CHR 0x83], [CHR 0xE2, CHR 0x80, CHR 0x84], [CHR 0xE2, CHR 0x80, CHR 0x85],
      [CHR 0xE2, CHR 0x80, CHR 0x86], [CHR 0xE2, CHR 0x80, CHR 0x87], [CHR 0xE2, CHR 0x80, CHR 0x88],
      [CHR 0xE2, CHR 0x80, CHR 0x89], [CHR 0xE2, CHR 0x80, CHR 0x8A],
      [CHR 0xE2, CHR 0x80, CHR 0xA8], [CHR 0xE2, CHR 0x80, CHR 0xA9], [CHR 0xE2, CHR 0x80, CHR 0xAF],
      [CHR 0xE2, CHR 0x81, CHR 0x9F],
      [CHR 0xE3, CHR 0x80, CHR 0x80],
      [CHR 0xEF, CHR 0xBB, CHR 0xBF]]"

fun startsWith :: "string \<Rightarrow> string \<Rightarrow> bool" where
  "startsWith s [] = True"
| "startsWith [] (e # es) = False"
| "startsWith (x # s) (e # es) = (x = e \<and> startsWith s es)"

lemma startsWith_length: "startsWith s e \<Longrightarrow> length e \<le> length s"
  by (induction s e rule: startsWith.induct) simp_all

text \<open>Removing from the start of \<open>s\<close>, again and again, whichever of the texts \<open>es\<close> it starts with.\<close>

function stripStart :: "string list \<Rightarrow> string \<Rightarrow> string" where
  "stripStart es s =
     (case find (\<lambda>e. e \<noteq> [] \<and> startsWith s e) es of
        None \<Rightarrow> s
      | Some e \<Rightarrow> stripStart es (drop (length e) s))"
  by pat_completeness auto
termination
proof (relation "measure (\<lambda>(es, s). length s)")
  show "wf (measure (\<lambda>(es, s). length s))" by simp
next
  fix es :: "string list" and s e :: string
  assume "find (\<lambda>e. e \<noteq> [] \<and> startsWith s e) es = Some e"
  then have "e \<noteq> []" "startsWith s e" by (auto simp: find_Some_iff)
  then have "0 < length e" "length e \<le> length s" using startsWith_length by simp_all
  then have "length s - length e < length s" by linarith
  then show "((es, drop (length e) s), (es, s)) \<in> measure (\<lambda>(es, s). length s)" by simp
qed

text \<open>
  The equation of \<open>stripStart\<close> is not a rewrite rule by itself: it is used where the
  text is given, through the two rules \<open>stripStart_Nil\<close> and \<open>stripStart_Cons\<close>.
\<close>

declare stripStart.simps [simp del]

definition trim :: "string \<Rightarrow> string" where
  "trim s = rev (stripStart (map rev whiteSpaces) (rev (stripStart whiteSpaces s)))"

text \<open>\<open>s.split(c)\<close> for a one-character separator: never empty.\<close>

fun split :: "char \<Rightarrow> string \<Rightarrow> string list" where
  "split c [] = [[]]"
| "split c (x # xs) =
     (if x = c then [] # split c xs
      else (case split c xs of [] \<Rightarrow> [[x]] | y # ys \<Rightarrow> (x # y) # ys))"

text \<open>\<open>parts.join(sep)\<close> on an array of strings.\<close>

fun join :: "string \<Rightarrow> string list \<Rightarrow> string" where
  "join sep [] = []"
| "join sep [x] = x"
| "join sep (x # y # ys) = x @ sep @ join sep (y # ys)"

text \<open>\<open>xs.findIndex(p)\<close>, with \<open>None\<close> for \<open>-1\<close>.\<close>

fun findIndex :: "('a \<Rightarrow> bool) \<Rightarrow> 'a list \<Rightarrow> nat option" where
  "findIndex p [] = None"
| "findIndex p (x # xs) =
     (if p x then Some 0 else (case findIndex p xs of None \<Rightarrow> None | Some i \<Rightarrow> Some (Suc i)))"

section \<open>Clock, random draw, errors\<close>

text \<open>
  The code reads the clock with \<open>Date.now()\<close> and \<open>new Date().toISOString()\<close>.
  A call receives its readings as two functions of the position at which the clock is
  read (the loop counter of the import and of the seeding; 0 for a single read), with no
  relation assumed between them.
\<close>

record clock =
  dateNow :: "nat \<Rightarrow> int"
  isoNow :: "nat \<Rightarrow> string"



datatype error =
    NotFound int       \<comment> \<open>\<open>throw new Error(`Translation with ID ${id} not found`)\<close>\<close>
  | TypeError          \<comment> \<open>a method called on \<open>null\<close>\<close>
  | DataError          \<comment> \<open>IndexedDB: the value at the key path is not a valid key\<close>
  | ConstraintError    \<comment> \<open>IndexedDB: no key left to generate, or a key or unique index value already stored\<close>
  | SqliteFull         \<comment> \<open>SQLite: \<open>SQLITE_FULL\<close>, the largest rowid has been given\<close>

section \<open>Reading a CSV row\<close>

text \<open>
  The body of the import loop up to the insertion is the same text in the three modules:
  trim the line, skip it when empty, split on commas, skip it when there are fewer than
  two parts, take the first part trimmed as wolof and the rest rejoined with commas and
  trimmed as french, skip the row when either is empty. \<open>parseRow\<close> is that text; it
  gives \<open>Some (wolof, french)\<close> for a row that reaches the insertion.
\<close>

definition parseRow :: "string \<Rightarrow> (string \<times> string) option" where
  "parseRow l =
     (let line = trim l in
      if line \<noteq> [] then
        (let parts = split CHR '','' line in
         if length parts \<ge> 2 then
           (let wolof = trim (hd parts);
                french = trim (join '','' (tl parts))
            in if french \<noteq> [] \<and> wolof \<noteq> [] then Some (wolof, french) else None)
         else None)
      else None)"

text \<open>The object literal the localStorage and IndexedDB imports insert (without its id).\<close>

definition newTranslation :: "string \<Rightarrow> string \<Rightarrow> string \<Rightarrow> obj" where
  "newTranslation french wolof lastUpdated =
     [''french'' \<mapsto> JStr french,
      ''wolof'' \<mapsto> JStr wolof,
      ''status'' \<mapsto> JStr ''pending'',
      ''validatedBy'' \<mapsto> JNull,
      ''originalWolof'' \<mapsto> JStr wolof,
      ''lastUpdated'' \<mapsto> JStr lastUpdated]"

section \<open>The localStorage module\<close>

text \<open>
  localStorage holds two keys, \<open>translations_data\<close> and \<open>users_data\<close>, each absent
  (\<open>None\<close>) or the JSON text of an array of objects, modelled by the array it parses to.
\<close>

record ls =
  translations_data :: "obj list option"
  users_data :: "obj list option"

definition ls_initDB :: "ls \<Rightarrow> ls" where
  "ls_initDB s =
     (let s1 = (if translations_data s = None then s\<lparr>translations_data := Some []\<rparr> else s)
      in if users_data s1 = None then s1\<lparr>users_data := Some []\<rparr> else s1)"

text \<open>
  \<open>translationExists\<close> reads the stored array; on an absent key \<open>JSON.parse(null)\<close>
  is \<open>null\<close> and \<open>.some\<close> throws.
\<close>

definition translationExists :: "ls \<Rightarrow> string \<Rightarrow> string \<Rightarrow> error + bool" where
  "translationExists s french wolof =
     (case translations_data s of
        None \<Rightarrow> Inl TypeError
      | Some translations \<Rightarrow>
          Inr (list_ex (\<lambda>t. t ''french'' = Some (JStr french) \<and> t ''wolof'' = Some (JStr wolof))
                 translations))"

text \<open>
  One turn of the import loop at counter \<open>i\<close>: the local array \<open>translations\<close> and
  \<open>addedCount\<close> are the accumulator; the duplicate check reads localStorage, which the
  loop does not write. The id is the sum \<open>Date.now() + addedCount\<close> of two numbers.
\<close>

definition ls_importRow :: "clock \<Rightarrow> ls \<Rightarrow> nat \<Rightarrow> string \<Rightarrow> obj list \<times> nat \<Rightarrow> error + (obj list \<times> nat)" where
  "ls_importRow clk s i l acc =
     (case parseRow l of
        None \<Rightarrow> Inr acc
      | Some (wolof, french) \<Rightarrow>
          (case translationExists s french wolof of
             Inl e \<Rightarrow> Inl e
           | Inr ex \<Rightarrow>
               if \<not> ex then
                 Inr (fst acc @
                        [(newTranslation french wolof (isoNow clk i))
                           (''id'' \<mapsto> JNum (toDouble (dateNow clk i + int (snd acc))))],
                      Suc (snd acc))
               else Inr acc))"

fun ls_importLoop :: "clock \<Rightarrow> ls \<Rightarrow> nat \<Rightarrow> string list \<Rightarrow> obj list \<times> nat \<Rightarrow> error + (obj list \<times> nat)" where
  "ls_importLoop clk s i [] acc = Inr acc"
| "ls_importLoop clk s i (l # rest) acc =
     (case ls_importRow clk s i l acc of
        Inl e \<Rightarrow> Inl e
      | Inr acc' \<Rightarrow> ls_importLoop clk s (Suc i) rest acc')"

text \<open>
  The import: the state returned is localStorage after the call, also when it throws
  (the \<open>catch\<close> rethrows).
\<close>

definition ls_importTranslationsFromCSV :: "clock \<Rightarrow> string \<Rightarrow> ls \<Rightarrow> ls \<times> (error + bool)" where
  "ls_importTranslationsFromCSV clk csvData s =
     (let s1 = ls_initDB s in
      case translations_data s1 of
        None \<Rightarrow> (s1, Inl TypeError)
      | Some translations \<Rightarrow>
          (case ls_importLoop clk s1 1 (drop 1 (split CHR 0x0A csvData)) (translations, 0) of
             Inl e \<Rightarrow> (s1, Inl e)
           | Inr (translations', addedCount) \<Rightarrow>
               (s1\<lparr>translations_data := Some translations'\<rparr>, Inr True)))"

definition ls_getAllTranslations :: "ls \<Rightarrow> ls \<times> (error + obj list)" where
  "ls_getAllTranslations s =
     (let s1 = ls_initDB s in
      case translations_data s1 of
        None \<Rightarrow> (s1, Inl TypeError)
      | Some translations \<Rightarrow> (s1, Inr translations))"




definition isValidated :: "obj \<Rightarrow> bool" where
  "isValidated t = (t ''status'' = Some (JStr ''validated''))"


text \<open>\<open>{...translation, ...updates, lastUpdated: new Date().toISOString()}\<close>.\<close>

definition mergeUpdates :: "obj \<Rightarrow> obj \<Rightarrow> string \<Rightarrow> obj" where
  "mergeUpdates translation updates lastUpdated =
     (translation ++ updates)(''lastUpdated'' \<mapsto> JStr lastUpdated)"

definition ls_updateTranslation :: "clock \<Rightarrow> int \<Rightarrow> obj \<Rightarrow> ls \<Rightarrow> ls \<times> (error + obj)" where
  "ls_updateTranslation clk ident updates s =
     (let s1 = ls_initDB s in
      case translations_data s1 of
        None \<Rightarrow> (s1, Inl TypeError)
      | Some translations \<Rightarrow>
          (case findIndex (\<lambda>t. t ''id'' = Some (JNum ident)) translations of
             None \<Rightarrow> (s1, Inl (NotFound ident))
           | Some index \<Rightarrow>
               (let updatedTranslation = mergeUpdates (translations ! index) updates (isoNow clk 0)
                in (s1\<lparr>translations_data := Some (translations[index := updatedTranslation])\<rparr>,
                    Inr updatedTranslation))))"

definition ls_isDatabaseEmpty :: "ls \<Rightarrow> ls \<times> (error + bool)" where
  "ls_isDatabaseEmpty s =
     (let s1 = ls_initDB s in
      case translations_data s1 of
        None \<Rightarrow> (s1, Inl TypeError)
      | Some translations \<Rightarrow> (s1, Inr (length translations = 0)))"

definition ls_getValidatedTranslations :: "ls \<Rightarrow> ls \<times> (error + obj list)" where
  "ls_getValidatedTranslations s =
     (case ls_getAllTranslations s of
        (s1, Inl e) \<Rightarrow> (s1, Inl e)
      | (s1, Inr translations) \<Rightarrow> (s1, Inr (filter isValidated translations)))"

definition defaultUsers :: "string list" where
  "defaultUsers = [''Alwaly'', ''Serge'', ''Matar'']"

definition hasName :: "string \<Rightarrow> obj \<Rightarrow> bool" where
  "hasName name user = (user ''name'' = Some (JStr name))"

text \<open>
  The seeding loop of the localStorage module: the accumulator is the local array
  \<open>users\<close> and the flag \<open>changed\<close>; \<open>k\<close> counts the turns. The id is the sum
  \<open>Date.now() + users.length\<close> of two numbers.
\<close>

fun ls_seedLoop :: "clock \<Rightarrow> nat \<Rightarrow> string list \<Rightarrow> obj list \<times> bool \<Rightarrow> obj list \<times> bool" where
  "ls_seedLoop clk k [] acc = acc"
| "ls_seedLoop clk k (name # rest) (usrs, changed) =
     (if \<not> list_ex (hasName name) usrs
      then ls_seedLoop clk (Suc k) rest
             (usrs @ [[''id'' \<mapsto> JNum (toDouble (dateNow clk k + int (length usrs))),
                       ''name'' \<mapsto> JStr name]],
              True)
      else ls_seedLoop clk (Suc k) rest (usrs, changed))"

definition ls_initializeUsers :: "clock \<Rightarrow> ls \<Rightarrow> ls \<times> (error + bool)" where
  "ls_initializeUsers clk s =
     (let s1 = ls_initDB s in
      case users_data s1 of
        None \<Rightarrow> (s1, Inl TypeError)
      | Some usrs \<Rightarrow>
          (case ls_seedLoop clk 0 defaultUsers (usrs, False) of
             (usrs', changed) \<Rightarrow>
               ((if changed then s1\<lparr>users_data := Some usrs'\<rparr> else s1), Inr True)))"

definition ls_getUsers :: "ls \<Rightarrow> ls \<times> (error + obj list)" where
  "ls_getUsers s =
     (let s1 = ls_initDB s in
      case users_data s1 of
        None \<Rightarrow> (s1, Inl TypeError)
      | Some usrs \<Rightarrow> (s1, Inr usrs))"

section \<open>The CSV export\<close>

text \<open>
  After reading the validated records the export is the same text in the three modules:
  an array of six elements joined with commas, appended to the header with a line feed.
\<close>

definition csvHeader :: string where
  "csvHeader = ''Wolof,French,Status,ValidatedBy,CorrectedBy,LastUpdated'' @ [CHR 0x0A]"

definition csvLine :: "obj \<Rightarrow> string" where
  "csvLine translation =
     join '',''
       (map joinElem
          [Some (JStr ([CHR 0x22] @ toString (translation ''wolof'') @ [CHR 0x22])),
           Some (JStr ([CHR 0x22] @ toString (translation ''french'') @ [CHR 0x22])),
           translation ''status'',
           orEmpty (translation ''validatedBy''),
           orEmpty (translation ''correctedBy''),
           translation ''lastUpdated''])"

definition csvOf :: "obj list \<Rightarrow> string" where
  "csvOf validatedTranslations =
     foldl (\<lambda>csvContent translation. csvContent @ csvLine translation @ [CHR 0x0A])
       csvHeader validatedTranslations"

definition ls_exportValidatedTranslationsToCSV :: "ls \<Rightarrow> ls \<times> (error + string)" where
  "ls_exportValidatedTranslationsToCSV s =
     (case ls_getValidatedTranslations s of
        (s1, Inl e) \<Rightarrow> (s1, Inl e)
      | (s1, Inr validatedTranslations) \<Rightarrow> (s1, Inr (csvOf validatedTranslations)))"

section \<open>The IndexedDB module\<close>

text \<open>
  An object store with key path \<open>id\<close> and a key generator: its records in key order,
  each holding its key in \<open>id\<close>, and the generator's current number (1 in a new store).
  The database is the one \<open>initDB\<close> opens, with both stores created.
\<close>

record objectStore =
  records :: "obj list"
  keyGenerator :: int

record idb =
  translationsStore :: objectStore
  usersStore :: objectStore

text \<open>
  Keys are numbers and strings; every number is below every string, and strings are
  ordered byte by byte (the order of their code points).
\<close>

fun strLess :: "string \<Rightarrow> string \<Rightarrow> bool" where
  "strLess [] [] = False"
| "strLess [] (y # ys) = True"
| "strLess (x # xs) [] = False"
| "strLess (x # xs) (y # ys) = ((of_char x :: nat) < of_char y \<or> (x = y \<and> strLess xs ys))"

fun keyLess :: "jsval option \<Rightarrow> jsval option \<Rightarrow> bool" where
  "keyLess (Some (JNum a)) (Some (JNum b)) = (a < b)"
| "keyLess (Some (JNum a)) (Some (JStr b)) = True"
| "keyLess (Some (JStr a)) (Some (JStr b)) = strLess a b"
| "keyLess _ _ = False"

text \<open>Storing a record under the key it carries: replace the record of that key, or insert in key order.\<close>

definition storeAtKey :: "obj \<Rightarrow> obj list \<Rightarrow> obj list" where
  "storeAtKey v rs =
     (if list_ex (\<lambda>r. r ''id'' = v ''id'') rs
      then map (\<lambda>r. if r ''id'' = v ''id'' then v else r) rs
      else takeWhile (\<lambda>r. keyLess (r ''id'') (v ''id'')) rs @ [v] @
           dropWhile (\<lambda>r. keyLess (r ''id'') (v ''id'')) rs)"

text \<open>
  \<open>store.put(value)\<close>: a value without \<open>id\<close> gets the generator's current number,
  and the request fails with a \<open>ConstraintError\<close> when that number is above
  \<open>2 ^ 53\<close>; a number as \<open>id\<close> moves the generator past it, up to \<open>2 ^ 53 + 1\<close>;
  \<open>null\<close> or a boolean at the key path is a \<open>DataError\<close>.
\<close>

definition idb_put :: "obj \<Rightarrow> objectStore \<Rightarrow> error + objectStore" where
  "idb_put v st =
     (case v ''id'' of
        None \<Rightarrow>
          if 2 ^ 53 < keyGenerator st then Inl ConstraintError
          else Inr (st\<lparr>records := storeAtKey (v(''id'' \<mapsto> JNum (keyGenerator st))) (records st),
                       keyGenerator := keyGenerator st + 1\<rparr>)
      | Some (JNum k) \<Rightarrow>
          Inr (st\<lparr>records := storeAtKey v (records st),
                  keyGenerator := max (keyGenerator st) (min k (2 ^ 53) + 1)\<rparr>)
      | Some (JStr k) \<Rightarrow> Inr (st\<lparr>records := storeAtKey v (records st)\<rparr>)
      | Some _ \<Rightarrow> Inl DataError)"

text \<open>
  \<open>store.add(value)\<close> for a value without \<open>id\<close>, as both callers pass it: the
  request fails with a \<open>ConstraintError\<close> when the generator's number is above
  \<open>2 ^ 53\<close> or is the key of a record of the store.
\<close>

definition idb_add :: "obj \<Rightarrow> objectStore \<Rightarrow> error + objectStore" where
  "idb_add v st =
     (if 2 ^ 53 < keyGenerator st
         \<or> list_ex (\<lambda>r. r ''id'' = Some (JNum (keyGenerator st))) (records st)
      then Inl ConstraintError
      else Inr (st\<lparr>records := storeAtKey (v(''id'' \<mapsto> JNum (keyGenerator st))) (records st),
                   keyGenerator := keyGenerator st + 1\<rparr>))"

text \<open>\<open>store.get(id)\<close>: the record of that key, or \<open>undefined\<close>.\<close>

definition idb_get :: "int \<Rightarrow> objectStore \<Rightarrow> obj option" where
  "idb_get ident st = find (\<lambda>r. r ''id'' = Some (JNum ident)) (records st)"

text \<open>
  The import loop places one \<open>store.add\<close> per row that reaches the insertion. A request
  that fails aborts the transaction: the store is left as it was before the call and the
  promise of the call is rejected with the error of the request.
\<close>

fun idb_importLoop :: "clock \<Rightarrow> nat \<Rightarrow> string list \<Rightarrow> objectStore \<Rightarrow> error + objectStore" where
  "idb_importLoop clk i [] st = Inr st"
| "idb_importLoop clk i (l # rest) st =
     (case parseRow l of
        None \<Rightarrow> idb_importLoop clk (Suc i) rest st
      | Some (wolof, french) \<Rightarrow>
          (case idb_add (newTranslation french wolof (isoNow clk i)) st of
             Inl e \<Rightarrow> Inl e
           | Inr st' \<Rightarrow> idb_importLoop clk (Suc i) rest st'))"

definition idb_importTranslationsFromCSV :: "clock \<Rightarrow> string \<Rightarrow> idb \<Rightarrow> idb \<times> (error + bool)" where
  "idb_importTranslationsFromCSV clk csvData db =
     (case idb_importLoop clk 1 (drop 1 (split CHR 0x0A csvData)) (translationsStore db) of
        Inl e \<Rightarrow> (db, Inl e)
      | Inr st \<Rightarrow> (db\<lparr>translationsStore := st\<rparr>, Inr True))"

definition idb_getAllTranslations :: "idb \<Rightarrow> obj list" where
  "idb_getAllTranslations db = records (translationsStore db)"


text \<open>
  The update spreads the result of \<open>store.get(id)\<close>, which is \<open>undefined\<close> for an
  unknown id (\<open>{...undefined}\<close> is the empty object), and puts the merged object. A put
  that fails aborts the transaction and the store stays as it was: a \<open>ConstraintError\<close>
  rejects the promise of the call; a \<open>DataError\<close> is thrown inside the success callback
  and the promise is never settled, which the result \<open>Inl DataError\<close> stands for.
\<close>

definition idb_updateTranslation :: "clock \<Rightarrow> int \<Rightarrow> obj \<Rightarrow> idb \<Rightarrow> idb \<times> (error + obj)" where
  "idb_updateTranslation clk ident updates db =
     (let translation = (case idb_get ident (translationsStore db) of
                           None \<Rightarrow> Map.empty | Some t \<Rightarrow> t);
          updatedTranslation = mergeUpdates translation updates (isoNow clk 0)
      in case idb_put updatedTranslation (translationsStore db) of
           Inl e \<Rightarrow> (db, Inl e)
         | Inr st \<Rightarrow> (db\<lparr>translationsStore := st\<rparr>, Inr updatedTranslation))"

definition idb_isDatabaseEmpty :: "idb \<Rightarrow> bool" where
  "idb_isDatabaseEmpty db = (length (idb_getAllTranslations db) = 0)"

definition idb_getValidatedTranslations :: "idb \<Rightarrow> obj list" where
  "idb_getValidatedTranslations db = filter isValidated (idb_getAllTranslations db)"

text \<open>
  The user store has a unique index on \<open>name\<close>: \<open>store.add({ name })\<close> fails with a
  \<open>ConstraintError\<close> when a record carries that name.
\<close>

definition idb_addUser :: "string \<Rightarrow> objectStore \<Rightarrow> error + objectStore" where
  "idb_addUser name st =
     (if list_ex (hasName name) (records st) then Inl ConstraintError
      else idb_add [''name'' \<mapsto> JStr name] st)"

fun idb_addUsers :: "string list \<Rightarrow> objectStore \<Rightarrow> error + objectStore" where
  "idb_addUsers [] st = Inr st"
| "idb_addUsers (name # rest) st =
     (case idb_addUser name st of
        Inl e \<Rightarrow> Inl e
      | Inr st' \<Rightarrow> idb_addUsers rest st')"

text \<open>
  The seeding places the three \<open>index.get(name)\<close> requests before any of their success
  callbacks runs, so every lookup reads the store as it was; the callbacks then add the
  names that were not found, in order. A request that fails aborts the transaction.
\<close>

definition idb_initializeUsers :: "idb \<Rightarrow> idb \<times> (error + bool)" where
  "idb_initializeUsers db =
     (let missing = filter (\<lambda>name. find (hasName name) (records (usersStore db)) = None) defaultUsers
      in case idb_addUsers missing (usersStore db) of
           Inl e \<Rightarrow> (db, Inl e)
         | Inr st \<Rightarrow> (db\<lparr>usersStore := st\<rparr>, Inr True))"

definition idb_getUsers :: "idb \<Rightarrow> obj list" where
  "idb_getUsers db = records (usersStore db)"

definition idb_exportValidatedTranslationsToCSV :: "idb \<Rightarrow> string" where
  "idb_exportValidatedTranslationsToCSV db = csvOf (idb_getValidatedTranslations db)"

section \<open>The SQLite module\<close>

text \<open>
  The two tables \<open>initDB\<close> creates: the rows in rowid order, each holding its rowid in
  \<open>id\<close>, and the number the table has in \<open>sqlite_sequence\<close>, the largest rowid the
  \<open>AUTOINCREMENT\<close> column has given so far (0 in a new table). \<open>translations\<close> has
  \<open>UNIQUE(french, wolof)\<close>, \<open>users\<close> has a unique \<open>name\<close>.
\<close>

record sqlTable =
  tableRows :: "obj list"
  lastRowid :: int

record sqlite =
  translationsTable :: sqlTable
  usersTable :: sqlTable

fun rowidOf :: "jsval option \<Rightarrow> int" where
  "rowidOf (Some (JNum k)) = k"
| "rowidOf _ = 0"

text \<open>
  The rowid an \<open>INSERT\<close> takes: one more than the largest rowid of the table (1 in an
  empty table), and at least one more than the number in \<open>sqlite_sequence\<close>.
\<close>

definition sql_newRowid :: "sqlTable \<Rightarrow> int" where
  "sql_newRowid tb =
     (let rowids = map (\<lambda>r. rowidOf (r ''id'')) (tableRows tb)
      in max (if rowids = [] then 1 else foldl max (hd rowids) (tl rowids) + 1)
             (lastRowid tb + 1))"

text \<open>
  \<open>INSERT OR IGNORE INTO translations (wolof, french, status, originalWolof, lastUpdated)
  VALUES (?, ?, 'pending', ?, ?)\<close>. The statement takes its rowid first, and fails with
  \<open>SQLITE_FULL\<close> when the largest rowid, \<open>2 ^ 63 - 1\<close>, has been given. The row is
  then dropped when a row with the same french and wolof is in the table, and the rowid
  taken is recorded in \<open>sqlite_sequence\<close> all the same. The columns not named take
  their defaults.
\<close>

definition sql_insertTranslation :: "string \<Rightarrow> string \<Rightarrow> string \<Rightarrow> string \<Rightarrow> sqlTable \<Rightarrow> error + sqlTable" where
  "sql_insertTranslation wolof french originalWolof lastUpdated tb =
     (if 2 ^ 63 - 1 < sql_newRowid tb then Inl SqliteFull
      else if list_ex (\<lambda>r. r ''french'' = Some (JStr french) \<and> r ''wolof'' = Some (JStr wolof)) (tableRows tb)
      then Inr (tb\<lparr>lastRowid := sql_newRowid tb\<rparr>)
      else Inr (tb\<lparr>tableRows := tableRows tb @
                      [[''id'' \<mapsto> JNum (sql_newRowid tb),
                        ''french'' \<mapsto> JStr french,
                        ''wolof'' \<mapsto> JStr wolof,
                        ''status'' \<mapsto> JStr ''pending'',
                        ''validatedBy'' \<mapsto> JNull,
                        ''correctedBy'' \<mapsto> JNull,
                        ''hasBeenCorrected'' \<mapsto> JNum 0,
                        ''originalWolof'' \<mapsto> JStr originalWolof,
                        ''lastUpdated'' \<mapsto> JStr lastUpdated]],
                   lastRowid := sql_newRowid tb\<rparr>))"

text \<open>
  The loop runs inside \<open>database.transaction\<close>: a statement that fails rolls the
  transaction back and the call throws.
\<close>

fun sql_importLoop :: "clock \<Rightarrow> nat \<Rightarrow> string list \<Rightarrow> sqlTable \<Rightarrow> error + sqlTable" where
  "sql_importLoop clk i [] tb = Inr tb"
| "sql_importLoop clk i (l # rest) tb =
     (case parseRow l of
        None \<Rightarrow> sql_importLoop clk (Suc i) rest tb
      | Some (wolof, french) \<Rightarrow>
          (case sql_insertTranslation wolof french wolof (isoNow clk i) tb of
             Inl e \<Rightarrow> Inl e
           | Inr tb' \<Rightarrow> sql_importLoop clk (Suc i) rest tb'))"

definition sql_importTranslationsFromCSV :: "clock \<Rightarrow> string \<Rightarrow> sqlite \<Rightarrow> sqlite \<times> (error + bool)" where
  "sql_importTranslationsFromCSV clk csvData db =
     (case sql_importLoop clk 1 (drop 1 (split CHR 0x0A csvData)) (translationsTable db) of
        Inl e \<Rightarrow> (db, Inl e)
      | Inr tb \<Rightarrow> (db\<lparr>translationsTable := tb\<rparr>, Inr True))"

text \<open>
  \<open>SELECT *\<close> hands every row over as an object; an integer column comes as the number
  nearest to it.
\<close>

definition sql_readRow :: "obj \<Rightarrow> obj" where
  "sql_readRow r = (case r ''id'' of Some (JNum k) \<Rightarrow> r(''id'' \<mapsto> JNum (toDouble k)) | _ \<Rightarrow> r)"

definition sql_getAllTranslations :: "sqlite \<Rightarrow> obj list" where
  "sql_getAllTranslations db = map sql_readRow (tableRows (translationsTable db))"

text \<open>\<open>INSERT OR IGNORE INTO users (name) VALUES (?)\<close>, in the same way.\<close>

definition sql_insertUser :: "string \<Rightarrow> sqlTable \<Rightarrow> error + sqlTable" where
  "sql_insertUser name tb =
     (if 2 ^ 63 - 1 < sql_newRowid tb then Inl SqliteFull
      else if list_ex (hasName name) (tableRows tb)
      then Inr (tb\<lparr>lastRowid := sql_newRowid tb\<rparr>)
      else Inr (tb\<lparr>tableRows := tableRows tb @
                      [[''id'' \<mapsto> JNum (sql_newRowid tb), ''name'' \<mapsto> JStr name]],
                   lastRowid := sql_newRowid tb\<rparr>))"

fun sql_insertUsers :: "string list \<Rightarrow> sqlTable \<Rightarrow> error + sqlTable" where
  "sql_insertUsers [] tb = Inr tb"
| "sql_insertUsers (name # rest) tb =
     (case sql_insertUser name tb of
        Inl e \<Rightarrow> Inl e
      | Inr tb' \<Rightarrow> sql_insertUsers rest tb')"

definition sql_initializeUsers :: "sqlite \<Rightarrow> sqlite \<times> (error + bool)" where
  "sql_initializeUsers db =
     (case sql_insertUsers defaultUsers (usersTable db) of
        Inl e \<Rightarrow> (db, Inl e)
      | Inr tb \<Rightarrow> (db\<lparr>usersTable := tb\<rparr>, Inr True))"

definition sql_getUsers :: "sqlite \<Rightarrow> obj list" where
  "sql_getUsers db = map sql_readRow (tableRows (usersTable db))"

section \<open>Views of the stores and the specification's reading of a CSV\<close>

text \<open>
  The translation and user records of localStorage as every operation reads them after
  \<open>initDB\<close>: the stored array, empty for an absent key.
\<close>

definition ls_rows :: "ls \<Rightarrow> obj list" where
  "ls_rows s = (case translations_data s of None \<Rightarrow> [] | Some ts \<Rightarrow> ts)"

definition ls_userRows :: "ls \<Rightarrow> obj list" where
  "ls_userRows s = (case users_data s of None \<Rightarrow> [] | Some us \<Rightarrow> us)"

text \<open>
  The specification's reading of a data row, to be compared with \<open>parseRow\<close>: the
  trimmed line is cut at its first comma; the first column trimmed is wolof, all that
  follows the comma trimmed is french; a line without a comma (a blank line, a line of
  one column) or with an empty field gives nothing.
\<close>

definition specRow :: "string \<Rightarrow> (string \<times> string) option" where
  "specRow l =
     (let line = trim l;
          firstColumn = takeWhile (\<lambda>x. x \<noteq> CHR '','') line;
          remaining = tl (dropWhile (\<lambda>x. x \<noteq> CHR '','') line)
      in if CHR '','' \<in> set line \<and> trim firstColumn \<noteq> [] \<and> trim remaining \<noteq> []
         then Some (trim firstColumn, trim remaining) else None)"

text \<open>The pair (french, wolof) is the current pair of some record.\<close>

definition pairExists :: "obj list \<Rightarrow> string \<Rightarrow> string \<Rightarrow> bool" where
  "pairExists ts french wolof =
     list_ex (\<lambda>t. t ''french'' = Some (JStr french) \<and> t ''wolof'' = Some (JStr wolof)) ts"

text \<open>
  The data rows of a CSV text, each with its line counter: line 1 (counter 0) is the
  header and is left out.
\<close>

definition rowsFrom :: "nat \<Rightarrow> string list \<Rightarrow> (nat \<times> string \<times> string) list" where
  "rowsFrom i ls =
     concat (map (\<lambda>(n, l). case specRow l of None \<Rightarrow> [] | Some (w, f) \<Rightarrow> [(n, w, f)])
               (enumerate i ls))"

definition dataRows :: "string \<Rightarrow> (nat \<times> string \<times> string) list" where
  "dataRows csvData = rowsFrom 1 (drop 1 (split CHR 0x0A csvData))"

text \<open>
  The records the localStorage import appends for the data rows \<open>rows\<close> when the
  stored array is \<open>stored\<close> and \<open>n\<close> records were added before: one per row whose
  pair is not in \<open>stored\<close>, numbered from \<open>n\<close>.
\<close>

definition ls_record :: "clock \<Rightarrow> nat \<times> nat \<times> string \<times> string \<Rightarrow> obj" where
  "ls_record clk =
     (\<lambda>(j, i, w, f). (newTranslation f w (isoNow clk i))(''id'' \<mapsto> JNum (toDouble (dateNow clk i + int j))))"

definition ls_inserted :: "clock \<Rightarrow> obj list \<Rightarrow> nat \<Rightarrow> (nat \<times> string \<times> string) list \<Rightarrow> obj list" where
  "ls_inserted clk stored n rows =
     map (ls_record clk) (enumerate n (filter (\<lambda>(i, w, f). \<not> pairExists stored f w) rows))"

section \<open>Specification-level views of the IndexedDB import\<close>

text \<open>The record stored for the \<open>j\<close>-th data row when the generator stood at \<open>g\<close>.\<close>

definition idb_record :: "clock \<Rightarrow> int \<Rightarrow> nat \<times> nat \<times> string \<times> string \<Rightarrow> obj" where
  "idb_record clk g = (\<lambda>(j, n, w, f). (newTranslation f w (isoNow clk n))(''id'' \<mapsto> JNum (g + int j)))"

section \<open>Specification-level views of the random pick\<close>


section \<open>Specification-level views of the seeding\<close>

text \<open>
  Every key of the store is a number the key generator has passed: the state of a store
  whose records all got their key from the generator.
\<close>

fun numberBelow :: "int \<Rightarrow> jsval option \<Rightarrow> bool" where
  "numberBelow g (Some (JNum k)) = (k < g)"
| "numberBelow g _ = False"

definition keysBelowGenerator :: "objectStore \<Rightarrow> bool" where
  "keysBelowGenerator st = list_all (\<lambda>r. numberBelow (keyGenerator st) (r ''id'')) (records st)"

text \<open>The default names no record of \<open>usrs\<close> carries, in the order of \<open>defaultUsers\<close>.\<close>

definition missingDefaults :: "obj list \<Rightarrow> string list" where
  "missingDefaults usrs = filter (\<lambda>name. \<not> list_ex (hasName name) usrs) defaultUsers"

text \<open>
  The records the localStorage seeding appends: the \<open>j\<close>-th inserted name, met at turn
  \<open>k\<close> of the loop, gets the id \<open>Date.now() + users.length\<close> of that moment.
\<close>

definition ls_seeded :: "clock \<Rightarrow> obj list \<Rightarrow> obj list" where
  "ls_seeded clk usrs =
     map (\<lambda>(j, k, name). [''id'' \<mapsto> JNum (toDouble (dateNow clk k + int (length usrs + j))),
                           ''name'' \<mapsto> JStr name])
       (enumerate 0 (filter (\<lambda>(k, name). \<not> list_ex (hasName name) usrs) (enumerate 0 defaultUsers)))"

text \<open>The records the IndexedDB seeding adds when the key generator stands at \<open>g\<close>.\<close>

definition idb_seeded :: "int \<Rightarrow> obj list \<Rightarrow> obj list" where
  "idb_seeded g usrs =
     map (\<lambda>(j, name). [''name'' \<mapsto> JStr name, ''id'' \<mapsto> JNum (g + int j)])
       (enumerate 0 (missingDefaults usrs))"

text \<open>
  The rows the SQLite seeding inserts when the first of its three statements takes the
  rowid \<open>g\<close>: every statement takes the next rowid, whether its row is inserted or
  dropped, so the default name at place \<open>k\<close> gets the rowid \<open>g + k\<close> when it is
  inserted.
\<close>

definition sql_seeded :: "int \<Rightarrow> obj list \<Rightarrow> obj list" where
  "sql_seeded g usrs =
     map (\<lambda>(k, name). [''id'' \<mapsto> JNum (g + int k), ''name'' \<mapsto> JStr name])
       (filter (\<lambda>(k, name). \<not> list_ex (hasName name) usrs) (enumerate 0 defaultUsers))"
section \<open>Arithmetic on numbers: facts\<close>

lemma bitLength_0: "bitLength 0 = 0"
  by (subst bitLength.simps) simp

lemma bitLength_pos: "0 < n \<Longrightarrow> bitLength n = Suc (bitLength (n div 2))"
  by (subst bitLength.simps) simp

lemma bitLength_bounds: "0 < x \<Longrightarrow> 2 ^ (bitLength x - 1) \<le> x \<and> x < 2 ^ bitLength x"
proof (induction x rule: bitLength.induct)
  case (1 n)
  have bl: "bitLength n = Suc (bitLength (n div 2))" using 1(2) by (rule bitLength_pos)
  show ?case
  proof (cases "n div 2 = 0")
    case True
    then have "n = 1" using 1(2) by (simp add: div_eq_0_iff) 
    then show ?thesis using bl True by (simp add: bitLength_0)
  next
    case False
    then have IH: "2 ^ (bitLength (n div 2) - 1) \<le> n div 2 \<and> n div 2 < 2 ^ bitLength (n div 2)"
      using 1 by simp
    have "0 < bitLength (n div 2)" using False by (subst bitLength_pos) simp_all
    then have pos: "bitLength (n div 2) = Suc (bitLength (n div 2) - 1)" by simp
    have "(2::nat) ^ bitLength (n div 2) = 2 * 2 ^ (bitLength (n div 2) - 1)"
      by (subst pos) simp
    then have lo: "2 ^ bitLength (n div 2) \<le> n" using IH by linarith
    have hi: "n < 2 * 2 ^ bitLength (n div 2)" using IH by linarith
    show ?thesis using lo hi bl by simp
  qed
qed

lemma bitLength_le: "x < 2 ^ k \<Longrightarrow> bitLength x \<le> k"
proof (cases "x = 0")
  case True then show ?thesis by (simp add: bitLength_0)
next
  case False
  assume "x < 2 ^ k"
  moreover have "2 ^ (bitLength x - 1) \<le> x" using bitLength_bounds[of x] False by simp
  ultimately have "(2::nat) ^ (bitLength x - 1) < 2 ^ k" by linarith
  then have "bitLength x - 1 < k" using power_less_imp_less_exp[of 2 "bitLength x - 1" k] by simp
  then show ?thesis by simp
qed

lemma roundToDouble_exact: "bitLength x \<le> 53 \<Longrightarrow> roundToDouble x = x"
  by (simp add: roundToDouble_def)



lemma toDouble_small: "\<bar>i\<bar> < 2 ^ 53 \<Longrightarrow> toDouble i = i"
proof -
  assume a: "\<bar>i\<bar> < 2 ^ 53"
  have "nat \<bar>i\<bar> < 2 ^ 53" using a by (simp add: nat_less_iff)
  then have "roundToDouble (nat \<bar>i\<bar>) = nat \<bar>i\<bar>"
    by (intro roundToDouble_exact bitLength_le)
  then show ?thesis by (cases "i < 0") (simp_all add: toDouble_def abs_if)
qed








section \<open>Strings: facts about split, join and the row reader\<close>

lemma stripStart_Nil: "stripStart es [] = []"
proof -
  have "\<not> (e \<noteq> [] \<and> startsWith [] e)" for e
    by (cases e) simp_all
  then have "find (\<lambda>e. e \<noteq> [] \<and> startsWith [] e) es = None"
    by (simp add: find_None_iff)
  then show ?thesis
    by (subst stripStart.simps) simp
qed

lemma stripStart_Cons:
  "stripStart es (c # s) =
     (case find (\<lambda>e. e \<noteq> [] \<and> startsWith (c # s) e) es of
        None \<Rightarrow> c # s
      | Some e \<Rightarrow> stripStart es (drop (length e) (c # s)))"
  by (rule stripStart.simps)

lemma split_not_Nil: "split c s \<noteq> []"
  by (induction s) (auto split: list.splits)

lemma hd_split: "hd (split c s) = takeWhile (\<lambda>x. x \<noteq> c) s"
  by (induction s) (auto split: list.splits simp: split_not_Nil)

lemma length_split: "(2 \<le> length (split c s)) = (c \<in> set s)"
proof (induction s)
  case Nil
  then show ?case by simp
next
  case (Cons x s)
  obtain y ys where y: "split c s = y # ys"
    using split_not_Nil[of c s] by (cases "split c s") auto
  show ?case using Cons y by auto
qed

lemma join_split: "join [c] (split c s) = s"
proof (induction s)
  case Nil
  then show ?case by simp
next
  case (Cons x s)
  obtain y ys where y: "split c s = y # ys"
    using split_not_Nil[of c s] by (cases "split c s") auto
  show ?case
  proof (cases "x = c")
    case True
    then show ?thesis using Cons y by simp
  next
    case False
    then show ?thesis using Cons y by (cases ys) auto
  qed
qed

lemma join_tl_split: "join [c] (tl (split c s)) = tl (dropWhile (\<lambda>x. x \<noteq> c) s)"
proof (induction s)
  case Nil
  then show ?case by simp
next
  case (Cons x s)
  obtain y ys where y: "split c s = y # ys"
    using split_not_Nil[of c s] by (cases "split c s") auto
  show ?case
  proof (cases "x = c")
    case True
    then show ?thesis by (simp add: join_split)
  next
    case False
    then show ?thesis using Cons y by simp
  qed
qed

lemma parseRow_specRow: "parseRow l = specRow l"
proof -
  have "join '','' (tl (split CHR '','' (trim l))) = tl (dropWhile (\<lambda>x. x \<noteq> CHR '','') (trim l))"
    using join_tl_split[of "CHR '',''" "trim l"] by simp
  then show ?thesis
    by (auto simp: parseRow_def specRow_def Let_def length_split hd_split)
qed

section \<open>The localStorage module: facts\<close>

lemma ls_rows_initDB: "ls_rows (ls_initDB s) = ls_rows s"
  by (cases "translations_data s") (simp_all add: ls_initDB_def ls_rows_def Let_def)

lemma ls_userRows_initDB: "ls_userRows (ls_initDB s) = ls_userRows s"
  by (cases "users_data s") (simp_all add: ls_initDB_def ls_userRows_def Let_def)

lemma translations_data_initDB: "translations_data (ls_initDB s) = Some (ls_rows s)"
  by (cases "translations_data s") (simp_all add: ls_initDB_def ls_rows_def Let_def)

lemma users_data_initDB: "users_data (ls_initDB s) = Some (ls_userRows s)"
  by (cases "users_data s") (simp_all add: ls_initDB_def ls_userRows_def Let_def)

lemma ls_getAllTranslations_eq: "ls_getAllTranslations s = (ls_initDB s, Inr (ls_rows s))"
  by (simp add: ls_getAllTranslations_def Let_def translations_data_initDB)

lemma ls_getValidatedTranslations_eq:
  "ls_getValidatedTranslations s = (ls_initDB s, Inr (filter isValidated (ls_rows s)))"
  by (simp add: ls_getValidatedTranslations_def ls_getAllTranslations_eq)

lemma translationExists_Some:
  "translations_data s = Some stored \<Longrightarrow> translationExists s f w = Inr (pairExists stored f w)"
  by (simp add: translationExists_def pairExists_def)

lemma ls_importLoop_closed:
  assumes "translations_data s = Some stored"
  shows "ls_importLoop clk s i ls (ts, n) =
         Inr (ts @ ls_inserted clk stored n (rowsFrom i ls),
              n + length (filter (\<lambda>(i, w, f). \<not> pairExists stored f w) (rowsFrom i ls)))"
proof (induction ls arbitrary: i ts n)
  case Nil
  then show ?case by (simp add: ls_inserted_def rowsFrom_def)
next
  case (Cons l ls)
  show ?case
  proof (cases "specRow l")
    case None
    then show ?thesis using Cons[of "Suc i" ts n]
      by (simp add: ls_importRow_def parseRow_specRow rowsFrom_def)
  next
    case (Some p)
    obtain w f where p: "p = (w, f)" by (cases p)
    show ?thesis
    proof (cases "pairExists stored f w")
      case True
      then show ?thesis using Some p Cons[of "Suc i" ts n] assms
        by (simp add: ls_importRow_def parseRow_specRow rowsFrom_def translationExists_Some
              ls_inserted_def)
    next
      case False
      then show ?thesis using Some p Cons[of "Suc i" _ "Suc n"] assms
        by (simp add: ls_importRow_def parseRow_specRow rowsFrom_def translationExists_Some
              ls_inserted_def ls_record_def)
    qed
  qed
qed

lemma ls_importTranslationsFromCSV_eq:
  "ls_importTranslationsFromCSV clk csvData s =
     ((ls_initDB s)\<lparr>translations_data :=
         Some (ls_rows s @ ls_inserted clk (ls_rows s) 0 (dataRows csvData))\<rparr>, Inr True)"
  by (simp add: ls_importTranslationsFromCSV_def Let_def translations_data_initDB dataRows_def
        ls_importLoop_closed[OF translations_data_initDB])

section \<open>The CSV export: facts\<close>

lemma foldl_csvLine:
  "foldl (\<lambda>csvContent translation. csvContent @ csvLine translation @ [CHR 0x0A]) acc vs =
     acc @ concat (map (\<lambda>t. csvLine t @ [CHR 0x0A]) vs)"
  by (induction vs arbitrary: acc) simp_all

lemma csvOf_eq: "csvOf vs = csvHeader @ concat (map (\<lambda>t. csvLine t @ [CHR 0x0A]) vs)"
  by (simp add: csvOf_def foldl_csvLine)

text \<open>
  C7. For every store state the export is the header line
  \<open>Wolof,French,Status,ValidatedBy,CorrectedBy,LastUpdated\<close> followed by one line per
  record of \<open>getValidatedTranslations\<close>, in its order; in a line the wolof and the french
  field stand between double quotes, and a \<open>validatedBy\<close> or \<open>correctedBy\<close> that is
  missing (\<open>undefined\<close> or \<open>null\<close>) is the empty string. Stated for the localStorage
  and the IndexedDB module; the line is the same text in all modules.
\<close>

theorem exportValidatedTranslationsToCSV_format:
  "snd (ls_getValidatedTranslations s) = Inr (filter isValidated (ls_rows s)) \<and>
   snd (ls_exportValidatedTranslationsToCSV s) =
     Inr (''Wolof,French,Status,ValidatedBy,CorrectedBy,LastUpdated'' @ [CHR 0x0A] @
          concat (map (\<lambda>t. csvLine t @ [CHR 0x0A]) (filter isValidated (ls_rows s)))) \<and>
   idb_exportValidatedTranslationsToCSV db =
     ''Wolof,French,Status,ValidatedBy,CorrectedBy,LastUpdated'' @ [CHR 0x0A] @
     concat (map (\<lambda>t. csvLine t @ [CHR 0x0A]) (idb_getValidatedTranslations db)) \<and>
   csvLine t =
     [CHR 0x22] @ toString (t ''wolof'') @ [CHR 0x22] @ '','' @
     [CHR 0x22] @ toString (t ''french'') @ [CHR 0x22] @ '','' @
     joinElem (t ''status'') @ '','' @
     joinElem (orEmpty (t ''validatedBy'')) @ '','' @
     joinElem (orEmpty (t ''correctedBy'')) @ '','' @
     joinElem (t ''lastUpdated'') \<and>
   joinElem (orEmpty None) = [] \<and> joinElem (orEmpty (Some JNull)) = [] \<and>
   joinElem (orEmpty (Some (JStr x))) = x \<and> toString (Some (JStr x)) = x"
proof -
  have a: "snd (ls_exportValidatedTranslationsToCSV s) =
             Inr (csvHeader @ concat (map (\<lambda>t. csvLine t @ [CHR 0x0A]) (filter isValidated (ls_rows s))))"
    by (simp add: ls_exportValidatedTranslationsToCSV_def ls_getValidatedTranslations_eq csvOf_eq)
  have b: "idb_exportValidatedTranslationsToCSV db =
             csvHeader @ concat (map (\<lambda>t. csvLine t @ [CHR 0x0A]) (idb_getValidatedTranslations db))"
    by (simp add: idb_exportValidatedTranslationsToCSV_def csvOf_eq)
  have c: "joinElem (orEmpty (Some (JStr x))) = x"
    by (cases x) (simp_all add: orEmpty_def)
  show ?thesis
    using a b c by (simp add: ls_getValidatedTranslations_eq csvHeader_def csvLine_def orEmpty_def)
qed

text \<open>
  The scenario of the specification: one validated record, validated by Alwaly and never
  corrected, and one pending record.
\<close>

theorem exportValidatedTranslationsToCSV_format_witness:
  "snd (ls_exportValidatedTranslationsToCSV
     \<lparr>translations_data = Some
        [[''id'' \<mapsto> JNum 1, ''french'' \<mapsto> JStr ''bonjour'', ''wolof'' \<mapsto> JStr ''salam'',
          ''status'' \<mapsto> JStr ''validated'', ''validatedBy'' \<mapsto> JStr ''Alwaly'',
          ''originalWolof'' \<mapsto> JStr ''salam'', ''lastUpdated'' \<mapsto> JStr ''T1''],
         [''id'' \<mapsto> JNum 2, ''french'' \<mapsto> JStr ''comment vas-tu'', ''wolof'' \<mapsto> JStr ''nanga def'',
          ''status'' \<mapsto> JStr ''pending'', ''validatedBy'' \<mapsto> JNull,
          ''originalWolof'' \<mapsto> JStr ''nanga def'', ''lastUpdated'' \<mapsto> JStr ''T0'']],
      users_data = None\<rparr>) =
   Inr (''Wolof,French,Status,ValidatedBy,CorrectedBy,LastUpdated'' @ [CHR 0x0A] @
        [CHR 0x22] @ ''salam'' @ [CHR 0x22] @ '','' @ [CHR 0x22] @ ''bonjour'' @ [CHR 0x22] @
        '',validated,Alwaly,,T1'' @ [CHR 0x0A])"
  using exportValidatedTranslationsToCSV_format
    [of "\<lparr>translations_data = Some
        [[''id'' \<mapsto> JNum 1, ''french'' \<mapsto> JStr ''bonjour'', ''wolof'' \<mapsto> JStr ''salam'',
          ''status'' \<mapsto> JStr ''validated'', ''validatedBy'' \<mapsto> JStr ''Alwaly'',
          ''originalWolof'' \<mapsto> JStr ''salam'', ''lastUpdated'' \<mapsto> JStr ''T1''],
         [''id'' \<mapsto> JNum 2, ''french'' \<mapsto> JStr ''comment vas-tu'', ''wolof'' \<mapsto> JStr ''nanga def'',
          ''status'' \<mapsto> JStr ''pending'', ''validatedBy'' \<mapsto> JNull,
          ''originalWolof'' \<mapsto> JStr ''nanga def'', ''lastUpdated'' \<mapsto> JStr ''T0'']],
      users_data = None\<rparr>"]
  by (simp add: ls_rows_def isValidated_def csvLine_def orEmpty_def)

section \<open>The random pick\<close>










section \<open>The IndexedDB module: facts\<close>

lemma numberBelow_keyLess: "numberBelow g x \<Longrightarrow> keyLess x (Some (JNum g)) \<and> x \<noteq> Some (JNum g)"
  by (induction g x rule: numberBelow.induct) simp_all

lemma numberBelow_mono: "numberBelow g x \<Longrightarrow> g \<le> g' \<Longrightarrow> numberBelow g' x"
  by (induction g x rule: numberBelow.induct) simp_all

lemma storeAtKey_fresh:
  assumes "list_all (\<lambda>r. numberBelow g (r ''id'')) rs"
    and "v ''id'' = Some (JNum g)"
  shows "storeAtKey v rs = rs @ [v]"
proof -
  have less: "keyLess (r ''id'') (v ''id'')" and neq: "r ''id'' \<noteq> v ''id''" if "r \<in> set rs" for r
    using assms that numberBelow_keyLess[of g "r ''id''"] by (auto simp: list_all_iff)
  have "\<not> list_ex (\<lambda>r. r ''id'' = v ''id'') rs"
    using neq by (auto simp: list_ex_iff)
  moreover have "takeWhile (\<lambda>r. keyLess (r ''id'') (v ''id'')) rs = rs"
    using less by (simp add: takeWhile_eq_all_conv)
  moreover have "dropWhile (\<lambda>r. keyLess (r ''id'') (v ''id'')) rs = []"
    using less by simp
  ultimately show ?thesis by (simp add: storeAtKey_def)
qed

lemma keysBelowGenerator_fresh:
  assumes "keysBelowGenerator st"
  shows "\<not> list_ex (\<lambda>r. r ''id'' = Some (JNum (keyGenerator st))) (records st)"
  using assms numberBelow_keyLess[of "keyGenerator st"]
  by (auto simp: keysBelowGenerator_def list_all_iff list_ex_iff)

text \<open>
  On a store whose keys the generator has passed, and while the generator has a number
  to give, \<open>store.add\<close> appends the record with the generator's number as its key.
\<close>

lemma idb_add_append:
  assumes "keysBelowGenerator st" and "keyGenerator st \<le> 2 ^ 53"
  shows "idb_add v st =
           Inr (st\<lparr>records := records st @ [v(''id'' \<mapsto> JNum (keyGenerator st))],
                   keyGenerator := keyGenerator st + 1\<rparr>)"
proof -
  have "storeAtKey (v(''id'' \<mapsto> JNum (keyGenerator st))) (records st) =
          records st @ [v(''id'' \<mapsto> JNum (keyGenerator st))]"
    using assms(1) by (intro storeAtKey_fresh[of "keyGenerator st"]) (simp_all add: keysBelowGenerator_def)
  moreover have "\<not> 2 ^ 53 < keyGenerator st" using assms(2) by linarith
  ultimately show ?thesis
    unfolding idb_add_def using keysBelowGenerator_fresh[OF assms(1)] by (simp only: simp_thms if_False)
qed

lemma keysBelowGenerator_append:
  assumes "keysBelowGenerator st"
  shows "keysBelowGenerator (st\<lparr>records := records st @ [v(''id'' \<mapsto> JNum (keyGenerator st))],
                               keyGenerator := keyGenerator st + 1\<rparr>)"
proof -
  have "list_all (\<lambda>r. numberBelow (keyGenerator st + 1) (r ''id'')) (records st)"
    using assms numberBelow_mono[of "keyGenerator st" _ "keyGenerator st + 1"]
    by (auto simp: keysBelowGenerator_def list_all_iff)
  then show ?thesis
    by (simp add: keysBelowGenerator_def)
qed

section \<open>The import\<close>

lemma idb_record_shift:
  "map (idb_record clk (g + 1)) (enumerate n rows) = map (idb_record clk g) (enumerate (Suc n) rows)"
  by (induction rows arbitrary: n) (simp_all add: idb_record_def case_prod_unfold add.assoc)

text \<open>
  The IndexedDB import adds one record per data row, whatever the store holds: on a
  store whose keys the generator has passed, and while the generator has a number for
  every data row, the records of the data rows are appended in order, under the
  generator's numbers. No row is compared with the records of the store.
\<close>

lemma idb_importLoop_closed:
  assumes "keysBelowGenerator st"
    and "keyGenerator st + int (length (rowsFrom i ls)) \<le> 2 ^ 53 + 1"
  shows "idb_importLoop clk i ls st =
           Inr (st\<lparr>records := records st @ map (idb_record clk (keyGenerator st)) (enumerate 0 (rowsFrom i ls)),
                   keyGenerator := keyGenerator st + int (length (rowsFrom i ls))\<rparr>)"
  using assms
proof (induction ls arbitrary: i st)
  case Nil
  then show ?case by (simp add: rowsFrom_def)
next
  case (Cons l ls)
  show ?case
  proof (cases "specRow l")
    case None
    then have r: "rowsFrom i (l # ls) = rowsFrom (Suc i) ls" by (simp add: rowsFrom_def)
    show ?thesis
      using Cons.IH[of st "Suc i"] Cons.prems None unfolding r
      by (simp add: parseRow_specRow)
  next
    case (Some p)
    obtain w f where p: "p = (w, f)" by (cases p)
    have r: "rowsFrom i (l # ls) = (i, w, f) # rowsFrom (Suc i) ls"
      using Some p by (simp add: rowsFrom_def)
    let ?new = "(newTranslation f w (isoNow clk i))(''id'' \<mapsto> JNum (keyGenerator st))"
    let ?st = "st\<lparr>records := records st @ [?new], keyGenerator := keyGenerator st + 1\<rparr>"
    have g: "keyGenerator st \<le> 2 ^ 53" using Cons.prems(2) unfolding r by simp
    have add: "idb_add (newTranslation f w (isoNow clk i)) st = Inr ?st"
      by (rule idb_add_append[OF Cons.prems(1) g])
    have k: "keysBelowGenerator ?st" by (rule keysBelowGenerator_append[OF Cons.prems(1)])
    have c: "keyGenerator ?st + int (length (rowsFrom (Suc i) ls)) \<le> 2 ^ 53 + 1"
      using Cons.prems(2) unfolding r by simp
    have e: "map (idb_record clk (keyGenerator st + 1)) (enumerate 0 (rowsFrom (Suc i) ls)) =
             map (idb_record clk (keyGenerator st)) (enumerate (Suc 0) (rowsFrom (Suc i) ls))"
      by (rule idb_record_shift)
    show ?thesis
      using Cons.IH[OF k c] Some p e unfolding r
      by (simp add: parseRow_specRow add idb_record_def)
  qed
qed

lemma idb_import_rows:
  assumes "keysBelowGenerator (translationsStore db)"
    and "keyGenerator (translationsStore db) + int (length (dataRows csvData)) \<le> 2 ^ 53 + 1"
  shows "snd (idb_importTranslationsFromCSV clk csvData db) = Inr True"
    and "idb_getAllTranslations (fst (idb_importTranslationsFromCSV clk csvData db)) =
           idb_getAllTranslations db @
           map (idb_record clk (keyGenerator (translationsStore db))) (enumerate 0 (dataRows csvData))"
    and "keyGenerator (translationsStore (fst (idb_importTranslationsFromCSV clk csvData db))) =
           keyGenerator (translationsStore db) + int (length (dataRows csvData))"
  using idb_importLoop_closed[OF assms(1), of 1 "drop 1 (split CHR 0x0A csvData)" clk] assms(2)
  by (simp_all add: idb_importTranslationsFromCSV_def dataRows_def idb_getAllTranslations_def)

text \<open>
  C6 at failing inputs. The pair of a data row already exists and the row is inserted all
  the same. In the IndexedDB module the store holds the record of (bonjour, salam) under
  the key 1 and the text has the one data row \<open>salam,bonjour\<close>: the import adds a
  second record of that pair under the key 2. In the localStorage module the store is
  empty and the text has the data row \<open>salam,bonjour\<close> twice: the check reads the
  stored array, which the loop has not written, and both rows are inserted. On the first
  input the localStorage and the SQLite module insert nothing; on the second the SQLite
  module inserts one row.
\<close>

theorem import_inserts_existing_pair:
  "pairExists
     (idb_getAllTranslations
        \<lparr>translationsStore = \<lparr>records =
           [[''id'' \<mapsto> JNum 1, ''french'' \<mapsto> JStr ''bonjour'', ''wolof'' \<mapsto> JStr ''salam'']],
           keyGenerator = 2\<rparr>,
         usersStore = \<lparr>records = [], keyGenerator = 1\<rparr>\<rparr>) ''bonjour'' ''salam'' \<and>
   map (\<lambda>r. (r ''id'', r ''french'', r ''wolof''))
     (idb_getAllTranslations (fst (idb_importTranslationsFromCSV \<lparr>dateNow = \<lambda>k. 1000, isoNow = \<lambda>k. ''T1''\<rparr>
        (''Wolof,French'' @ [CHR 0x0A] @ ''salam,bonjour'')
        \<lparr>translationsStore = \<lparr>records =
           [[''id'' \<mapsto> JNum 1, ''french'' \<mapsto> JStr ''bonjour'', ''wolof'' \<mapsto> JStr ''salam'']],
           keyGenerator = 2\<rparr>,
         usersStore = \<lparr>records = [], keyGenerator = 1\<rparr>\<rparr>))) =
     [(Some (JNum 1), Some (JStr ''bonjour''), Some (JStr ''salam'')),
      (Some (JNum 2), Some (JStr ''bonjour''), Some (JStr ''salam''))] \<and>
   map (\<lambda>r. (r ''id'', r ''french'', r ''wolof''))
     (ls_rows (fst (ls_importTranslationsFromCSV \<lparr>dateNow = \<lambda>k. 1000, isoNow = \<lambda>k. ''T1''\<rparr>
        (''Wolof,French'' @ [CHR 0x0A] @ ''salam,bonjour'')
        \<lparr>translations_data = Some
           [[''id'' \<mapsto> JNum 1, ''french'' \<mapsto> JStr ''bonjour'', ''wolof'' \<mapsto> JStr ''salam'']],
         users_data = Some []\<rparr>))) =
     [(Some (JNum 1), Some (JStr ''bonjour''), Some (JStr ''salam''))] \<and>
   map (\<lambda>r. (r ''id'', r ''french'', r ''wolof''))
     (tableRows (translationsTable (fst (sql_importTranslationsFromCSV \<lparr>dateNow = \<lambda>k. 1000, isoNow = \<lambda>k. ''T1''\<rparr>
        (''Wolof,French'' @ [CHR 0x0A] @ ''salam,bonjour'')
        \<lparr>translationsTable = \<lparr>tableRows =
           [[''id'' \<mapsto> JNum 1, ''french'' \<mapsto> JStr ''bonjour'', ''wolof'' \<mapsto> JStr ''salam'']],
           lastRowid = 1\<rparr>,
         usersTable = \<lparr>tableRows = [], lastRowid = 0\<rparr>\<rparr>)))) =
     [(Some (JNum 1), Some (JStr ''bonjour''), Some (JStr ''salam''))] \<and>
   map (\<lambda>r. (r ''id'', r ''french'', r ''wolof''))
     (ls_rows (fst (ls_importTranslationsFromCSV \<lparr>dateNow = \<lambda>k. 1000, isoNow = \<lambda>k. ''T1''\<rparr>
        (''Wolof,French'' @ [CHR 0x0A] @ ''salam,bonjour'' @ [CHR 0x0A] @ ''salam,bonjour'')
        \<lparr>translations_data = Some [], users_data = Some []\<rparr>))) =
     [(Some (JNum 1000), Some (JStr ''bonjour''), Some (JStr ''salam'')),
      (Some (JNum 1001), Some (JStr ''bonjour''), Some (JStr ''salam''))] \<and>
   map (\<lambda>r. (r ''id'', r ''french'', r ''wolof''))
     (tableRows (translationsTable (fst (sql_importTranslationsFromCSV \<lparr>dateNow = \<lambda>k. 1000, isoNow = \<lambda>k. ''T1''\<rparr>
        (''Wolof,French'' @ [CHR 0x0A] @ ''salam,bonjour'' @ [CHR 0x0A] @ ''salam,bonjour'')
        \<lparr>translationsTable = \<lparr>tableRows = [], lastRowid = 0\<rparr>,
         usersTable = \<lparr>tableRows = [], lastRowid = 0\<rparr>\<rparr>)))) =
     [(Some (JNum 1), Some (JStr ''bonjour''), Some (JStr ''salam''))]"
proof -
  let ?one = "''Wolof,French'' @ [CHR 0x0A] @ ''salam,bonjour''"
  let ?two = "''Wolof,French'' @ [CHR 0x0A] @ ''salam,bonjour'' @ [CHR 0x0A] @ ''salam,bonjour''"
  let ?c = "\<lparr>dateNow = \<lambda>k. 1000, isoNow = \<lambda>k. ''T1''\<rparr>"
  let ?r = "[''id'' \<mapsto> JNum 1, ''french'' \<mapsto> JStr ''bonjour'', ''wolof'' \<mapsto> JStr ''salam'']"
  let ?db = "\<lparr>translationsStore = \<lparr>records = [?r], keyGenerator = 2\<rparr>,
              usersStore = \<lparr>records = [], keyGenerator = 1\<rparr>\<rparr>"
  let ?s = "\<lparr>translations_data = Some [?r], users_data = Some []\<rparr>"
  let ?q = "\<lparr>translationsTable = \<lparr>tableRows = [?r], lastRowid = 1\<rparr>,
             usersTable = \<lparr>tableRows = [], lastRowid = 0\<rparr>\<rparr>"
  have a: "pairExists (idb_getAllTranslations ?db) ''bonjour'' ''salam''"
    by (simp add: pairExists_def idb_getAllTranslations_def)
  have b: "map (\<lambda>r. (r ''id'', r ''french'', r ''wolof''))
             (idb_getAllTranslations (fst (idb_importTranslationsFromCSV ?c ?one ?db))) =
           [(Some (JNum 1), Some (JStr ''bonjour''), Some (JStr ''salam'')),
            (Some (JNum 2), Some (JStr ''bonjour''), Some (JStr ''salam''))]"
    by (simp add: idb_importTranslationsFromCSV_def parseRow_def trim_def whiteSpaces_def
          stripStart_Nil stripStart_Cons Let_def idb_add_def storeAtKey_def
          idb_getAllTranslations_def newTranslation_def)
  have c: "map (\<lambda>r. (r ''id'', r ''french'', r ''wolof''))
             (ls_rows (fst (ls_importTranslationsFromCSV ?c ?one ?s))) =
           [(Some (JNum 1), Some (JStr ''bonjour''), Some (JStr ''salam''))]"
    by (simp add: ls_importTranslationsFromCSV_def ls_initDB_def ls_importRow_def translationExists_def
          parseRow_def trim_def whiteSpaces_def stripStart_Nil stripStart_Cons Let_def ls_rows_def)
  have d: "map (\<lambda>r. (r ''id'', r ''french'', r ''wolof''))
             (tableRows (translationsTable (fst (sql_importTranslationsFromCSV ?c ?one ?q)))) =
           [(Some (JNum 1), Some (JStr ''bonjour''), Some (JStr ''salam''))]"
    by (simp add: sql_importTranslationsFromCSV_def sql_insertTranslation_def sql_newRowid_def
          parseRow_def trim_def whiteSpaces_def stripStart_Nil stripStart_Cons Let_def)
  have e: "map (\<lambda>r. (r ''id'', r ''french'', r ''wolof''))
             (ls_rows (fst (ls_importTranslationsFromCSV ?c ?two
                \<lparr>translations_data = Some [], users_data = Some []\<rparr>))) =
           [(Some (JNum 1000), Some (JStr ''bonjour''), Some (JStr ''salam'')),
            (Some (JNum 1001), Some (JStr ''bonjour''), Some (JStr ''salam''))]"
    by (simp add: ls_importTranslationsFromCSV_def ls_initDB_def ls_importRow_def translationExists_def
          parseRow_def trim_def whiteSpaces_def stripStart_Nil stripStart_Cons Let_def ls_rows_def
          newTranslation_def toDouble_small)
  have f: "map (\<lambda>r. (r ''id'', r ''french'', r ''wolof''))
             (tableRows (translationsTable (fst (sql_importTranslationsFromCSV ?c ?two
                \<lparr>translationsTable = \<lparr>tableRows = [], lastRowid = 0\<rparr>,
                 usersTable = \<lparr>tableRows = [], lastRowid = 0\<rparr>\<rparr>)))) =
           [(Some (JNum 1), Some (JStr ''bonjour''), Some (JStr ''salam''))]"
    by (simp add: sql_importTranslationsFromCSV_def sql_insertTranslation_def sql_newRowid_def
          parseRow_def trim_def whiteSpaces_def stripStart_Nil stripStart_Cons Let_def)
  show ?thesis using a b c d e f by (simp only: simp_thms)
qed

section \<open>The seeding of the users\<close>

lemma ls_seedLoop_defaultUsers:
  "ls_seedLoop clk 0 defaultUsers (usrs, False) = (usrs @ ls_seeded clk usrs, ls_seeded clk usrs \<noteq> [])"
  by (simp add: defaultUsers_def ls_seeded_def hasName_def ac_simps)


lemma names_ls_seeded:
  "map (\<lambda>u. u ''name'') (ls_seeded clk usrs) = map (\<lambda>name. Some (JStr name)) (missingDefaults usrs)"
  by (simp add: ls_seeded_def missingDefaults_def defaultUsers_def)

lemma missingDefaults_ls_seeded: "missingDefaults (usrs @ ls_seeded clk usrs) = []"
  by (simp add: ls_seeded_def missingDefaults_def defaultUsers_def hasName_def)

lemma ls_seeded_Nil: "missingDefaults usrs = [] \<Longrightarrow> ls_seeded clk usrs = []"
  by (simp add: ls_seeded_def missingDefaults_def defaultUsers_def split: if_splits)

lemma ls_initializeUsers_eq:
  "ls_initializeUsers clk s =
     ((if ls_seeded clk (ls_userRows s) \<noteq> []
       then (ls_initDB s)\<lparr>users_data := Some (ls_userRows s @ ls_seeded clk (ls_userRows s))\<rparr>
       else ls_initDB s), Inr True)"
  by (simp add: ls_initializeUsers_def Let_def users_data_initDB ls_seedLoop_defaultUsers)

lemma ls_userRows_initializeUsers:
  "ls_userRows (fst (ls_initializeUsers clk s)) = ls_userRows s @ ls_seeded clk (ls_userRows s)"
  by (simp add: ls_initializeUsers_eq ls_userRows_initDB) (simp add: ls_userRows_def)

lemma ls_initDB_fixed:
  "translations_data s \<noteq> None \<Longrightarrow> users_data s \<noteq> None \<Longrightarrow> ls_initDB s = s"
  by (simp add: ls_initDB_def Let_def)

lemma ls_initializeUsers_twice:
  "fst (ls_initializeUsers clk' (fst (ls_initializeUsers clk s))) = fst (ls_initializeUsers clk s)"
proof -
  let ?s = "fst (ls_initializeUsers clk s)"
  have "missingDefaults (ls_userRows ?s) = []"
    by (simp add: ls_userRows_initializeUsers missingDefaults_ls_seeded)
  then have n: "ls_seeded clk' (ls_userRows ?s) = []" by (rule ls_seeded_Nil)
  have "ls_initDB ?s = ?s"
    by (rule ls_initDB_fixed) (simp_all add: ls_initializeUsers_eq translations_data_initDB users_data_initDB)
  then show ?thesis
    using n by (simp add: ls_initializeUsers_eq[of clk' ?s])
qed

lemma find_hasName_None: "(find (hasName name) usrs = None) = (\<not> list_ex (hasName name) usrs)"
  by (auto simp: find_None_iff list_ex_iff)

text \<open>
  The adds of the IndexedDB seeding, for names that are distinct and that no record of
  the store carries, on a store whose keys the generator has passed and whose generator
  has a number for each of them.
\<close>

lemma idb_addUsers_closed:
  assumes "keysBelowGenerator st"
    and "keyGenerator st + int (length xs) \<le> 2 ^ 53 + 1"
    and "distinct xs"
    and "\<forall>x\<in>set xs. \<not> list_ex (hasName x) (records st)"
  shows "idb_addUsers xs st =
           Inr (st\<lparr>records := records st @
                     map (\<lambda>(j, x). [''name'' \<mapsto> JStr x, ''id'' \<mapsto> JNum (keyGenerator st + int j)])
                       (enumerate 0 xs),
                   keyGenerator := keyGenerator st + int (length xs)\<rparr>)"
proof -
  define keyed where "keyed = (\<lambda>g (j :: nat, x). [''name'' \<mapsto> JStr x, ''id'' \<mapsto> JNum (g + int j)])"
  have shift: "map (keyed (g + 1)) (enumerate n ys) = map (keyed g) (enumerate (Suc n) ys)" for g n ys
    by (induction ys arbitrary: n) (simp_all add: keyed_def add.assoc)
  have first: "keyed g (0, x) = [''name'' \<mapsto> JStr x, ''id'' \<mapsto> JNum g]" for g x
    by (simp add: keyed_def)
  have "idb_addUsers xs st =
           Inr (st\<lparr>records := records st @ map (keyed (keyGenerator st)) (enumerate 0 xs),
                   keyGenerator := keyGenerator st + int (length xs)\<rparr>)"
    using assms
  proof (induction xs arbitrary: st)
    case Nil
    then show ?case by simp
  next
    case (Cons x xs)
    let ?new = "[''name'' \<mapsto> JStr x, ''id'' \<mapsto> JNum (keyGenerator st)]"
    let ?st = "st\<lparr>records := records st @ [?new], keyGenerator := keyGenerator st + 1\<rparr>"
    have g: "keyGenerator st \<le> 2 ^ 53" using Cons.prems(2) by simp
    have absent: "\<not> list_ex (hasName x) (records st)" using Cons.prems(4) by simp
    have add: "idb_addUser x st = Inr ?st"
      using absent idb_add_append[OF Cons.prems(1) g, of "[''name'' \<mapsto> JStr x]"]
      by (simp add: idb_addUser_def)
    have k: "keysBelowGenerator ?st"
      using keysBelowGenerator_append[OF Cons.prems(1), of "[''name'' \<mapsto> JStr x]"] by simp
    have c: "keyGenerator ?st + int (length xs) \<le> 2 ^ 53 + 1" using Cons.prems(2) by simp
    have d: "distinct xs" using Cons.prems(3) by simp
    have n: "\<forall>y\<in>set xs. \<not> list_ex (hasName y) (records ?st)"
      using Cons.prems(3,4) by (auto simp: hasName_def list_ex_iff)
    show ?case
      using Cons.IH[OF k c d n] by (simp add: add shift first)
  qed
  then show ?thesis by (simp add: keyed_def)
qed

lemma distinct_missingDefaults: "distinct (missingDefaults usrs)"
  by (simp add: missingDefaults_def defaultUsers_def)

lemma length_missingDefaults: "length (missingDefaults usrs) \<le> 3"
  by (simp add: missingDefaults_def defaultUsers_def)

lemma idb_initializeUsers_eq:
  assumes "keysBelowGenerator (usersStore db)" and "keyGenerator (usersStore db) \<le> 2 ^ 53 - 2"
  shows "idb_initializeUsers db =
           (db\<lparr>usersStore := (usersStore db)
                 \<lparr>records := records (usersStore db) @
                              idb_seeded (keyGenerator (usersStore db)) (records (usersStore db)),
                  keyGenerator := keyGenerator (usersStore db) +
                                  int (length (missingDefaults (records (usersStore db))))\<rparr>\<rparr>, Inr True)"
proof -
  let ?st = "usersStore db"
  have m: "filter (\<lambda>name. find (hasName name) (records ?st) = None) defaultUsers =
           missingDefaults (records ?st)"
    by (simp add: find_hasName_None missingDefaults_def)
  have c: "keyGenerator ?st + int (length (missingDefaults (records ?st))) \<le> 2 ^ 53 + 1"
    using assms(2) length_missingDefaults[of "records ?st"] by simp
  have n: "\<forall>x\<in>set (missingDefaults (records ?st)). \<not> list_ex (hasName x) (records ?st)"
    by (simp add: missingDefaults_def)
  show ?thesis
    unfolding idb_initializeUsers_def Let_def m idb_seeded_def
      idb_addUsers_closed[OF assms(1) c distinct_missingDefaults n]
    by simp
qed

lemma missingDefaults_idb_seeded: "missingDefaults (usrs @ idb_seeded g usrs) = []"
  by (simp add: idb_seeded_def missingDefaults_def defaultUsers_def hasName_def)

lemma idb_initializeUsers_twice:
  assumes "keysBelowGenerator (usersStore db)" and "keyGenerator (usersStore db) \<le> 2 ^ 53 - 2"
  shows "idb_initializeUsers (fst (idb_initializeUsers db)) = (fst (idb_initializeUsers db), Inr True)"
proof -
  let ?db = "fst (idb_initializeUsers db)"
  have "missingDefaults (records (usersStore ?db)) = []"
    by (simp add: idb_initializeUsers_eq[OF assms] missingDefaults_idb_seeded)
  then show ?thesis
    by (simp add: idb_initializeUsers_def[of ?db] Let_def find_hasName_None flip: missingDefaults_def)
qed

section \<open>The SQLite module: facts\<close>

lemma foldl_max_ge: "(a :: int) \<le> foldl max a xs \<and> (\<forall>x\<in>set xs. x \<le> foldl max a xs)"
proof (induction xs arbitrary: a)
  case Nil
  then show ?case by simp
next
  case (Cons x xs)
  have "max a x \<le> foldl max (max a x) xs" "\<forall>y\<in>set xs. y \<le> foldl max (max a x) xs"
    using Cons[of "max a x"] by simp_all
  then show ?case by auto
qed

lemma foldl_max_le: "(a :: int) \<le> b \<Longrightarrow> \<forall>x\<in>set xs. x \<le> b \<Longrightarrow> foldl max a xs \<le> b"
  by (induction xs arbitrary: a) simp_all

text \<open>The rowid an insert takes is above every rowid of the table and above the number recorded.\<close>

lemma sql_newRowid_above:
  "lastRowid tb < sql_newRowid tb"
  "r \<in> set (tableRows tb) \<Longrightarrow> rowidOf (r ''id'') < sql_newRowid tb"
proof -
  show "lastRowid tb < sql_newRowid tb" by (simp add: sql_newRowid_def Let_def)
  assume r: "r \<in> set (tableRows tb)"
  let ?ids = "map (\<lambda>r. rowidOf (r ''id'')) (tableRows tb)"
  have ne: "?ids \<noteq> []" using r by auto
  then have "?ids = hd ?ids # tl ?ids" by simp
  moreover have "rowidOf (r ''id'') \<in> set ?ids" using r by simp
  ultimately have "rowidOf (r ''id'') \<in> set (hd ?ids # tl ?ids)" by simp
  then have "rowidOf (r ''id'') \<le> foldl max (hd ?ids) (tl ?ids)"
    using foldl_max_ge[of "hd ?ids" "tl ?ids"] by auto
  then show "rowidOf (r ''id'') < sql_newRowid tb" using ne by (simp add: sql_newRowid_def Let_def)
qed

text \<open>Once the number recorded is at least every rowid of the table, the next rowid is the one after it.\<close>

lemma sql_newRowid_next:
  assumes "\<forall>r\<in>set (tableRows tb). rowidOf (r ''id'') \<le> lastRowid tb"
    and "tableRows tb = [] \<longrightarrow> 0 \<le> lastRowid tb"
  shows "sql_newRowid tb = lastRowid tb + 1"
proof (cases "tableRows tb = []")
  case True
  then show ?thesis using assms(2) by (simp add: sql_newRowid_def)
next
  case False
  let ?ids = "map (\<lambda>r. rowidOf (r ''id'')) (tableRows tb)"
  have all: "\<forall>x\<in>set ?ids. x \<le> lastRowid tb" using assms(1) by simp
  have "?ids = hd ?ids # tl ?ids" using False by simp
  then have "hd ?ids \<in> set ?ids" "set (tl ?ids) \<subseteq> set ?ids"
    by (metis list.set_intros(1), metis list.set_intros(2) subsetI)
  then have "hd ?ids \<le> lastRowid tb" "\<forall>x\<in>set (tl ?ids). x \<le> lastRowid tb" using all by auto
  then have "foldl max (hd ?ids) (tl ?ids) \<le> lastRowid tb" by (rule foldl_max_le)
  then show ?thesis using False by (simp add: sql_newRowid_def Let_def)
qed

lemma sql_insertUsers_closed:
  assumes "\<forall>r\<in>set (tableRows tb). rowidOf (r ''id'') \<le> lastRowid tb"
    and "tableRows tb = [] \<longrightarrow> 0 \<le> lastRowid tb"
    and "lastRowid tb + int (length xs) \<le> 2 ^ 63 - 1"
    and "distinct xs"
  shows "sql_insertUsers xs tb =
           Inr (tb\<lparr>tableRows := tableRows tb @
                     map (\<lambda>(k, name). [''id'' \<mapsto> JNum (lastRowid tb + 1 + int k), ''name'' \<mapsto> JStr name])
                       (filter (\<lambda>(k, name). \<not> list_ex (hasName name) (tableRows tb)) (enumerate 0 xs)),
                   lastRowid := lastRowid tb + int (length xs)\<rparr>)"
proof -
  define row where "row = (\<lambda>g (k :: nat, name). [''id'' \<mapsto> JNum (g + 1 + int k), ''name'' \<mapsto> JStr name])"
  define absent where "absent = (\<lambda>rows (k :: nat, name). \<not> list_ex (hasName name) rows)"
  have shift: "map (row (g + 1)) (filter (absent rows) (enumerate n ys)) =
               map (row g) (filter (absent rows) (enumerate (Suc n) ys))" for g n ys rows
    by (induction ys arbitrary: n) (simp_all add: row_def absent_def add.assoc)
  have other: "filter (absent (rows @ [[''id'' \<mapsto> JNum g, ''name'' \<mapsto> JStr x]])) (enumerate n ys) =
               filter (absent rows) (enumerate n ys)" if "x \<notin> set ys" for rows g x n ys
    using that by (induction ys arbitrary: n) (auto simp: absent_def hasName_def)
  have "sql_insertUsers xs tb =
           Inr (tb\<lparr>tableRows := tableRows tb @
                     map (row (lastRowid tb)) (filter (absent (tableRows tb)) (enumerate 0 xs)),
                   lastRowid := lastRowid tb + int (length xs)\<rparr>)"
    using assms
  proof (induction xs arbitrary: tb)
    case Nil
    then show ?case by simp
  next
    case (Cons x xs)
    have g: "sql_newRowid tb = lastRowid tb + 1" by (rule sql_newRowid_next[OF Cons.prems(1,2)])
    have full: "\<not> 2 ^ 63 - 1 < lastRowid tb + 1" using Cons.prems(3) by simp
    have d: "distinct xs" and x: "x \<notin> set xs" using Cons.prems(4) by simp_all
    show ?case
    proof (cases "list_ex (hasName x) (tableRows tb)")
      case True
      let ?tb = "tb\<lparr>lastRowid := lastRowid tb + 1\<rparr>"
      have ins: "sql_insertUser x tb = Inr ?tb"
        using True full by (simp add: sql_insertUser_def g)
      have inv: "\<forall>r\<in>set (tableRows ?tb). rowidOf (r ''id'') \<le> lastRowid ?tb"
        using Cons.prems(1) by auto
      have ne: "tableRows ?tb = [] \<longrightarrow> 0 \<le> lastRowid ?tb" using True by auto
      have cap: "lastRowid ?tb + int (length xs) \<le> 2 ^ 63 - 1" using Cons.prems(3) by simp
      have "\<not> absent (tableRows tb) (0, x)" using True by (simp add: absent_def)
      then show ?thesis
        using Cons.IH[OF inv ne cap d] by (simp add: ins shift)
    next
      case False
      let ?new = "[''id'' \<mapsto> JNum (lastRowid tb + 1), ''name'' \<mapsto> JStr x]"
      let ?tb = "tb\<lparr>tableRows := tableRows tb @ [?new], lastRowid := lastRowid tb + 1\<rparr>"
      have ins: "sql_insertUser x tb = Inr ?tb"
        using False full by (simp add: sql_insertUser_def g)
      have inv: "\<forall>r\<in>set (tableRows ?tb). rowidOf (r ''id'') \<le> lastRowid ?tb"
        using Cons.prems(1) by auto
      have ne: "tableRows ?tb = [] \<longrightarrow> 0 \<le> lastRowid ?tb" by simp
      have cap: "lastRowid ?tb + int (length xs) \<le> 2 ^ 63 - 1" using Cons.prems(3) by simp
      have a: "absent (tableRows tb) (0, x)" using False by (simp add: absent_def)
      have r: "row (lastRowid tb) (0, x) = ?new" by (simp add: row_def)
      show ?thesis
        using Cons.IH[OF inv ne cap d] a
        by (simp add: ins shift other[OF x] r)
    qed
  qed
  then show ?thesis by (simp add: row_def absent_def)
qed

text \<open>
  The statements of the SQLite seeding see the number recorded only through the rowid
  they take: the seeding of a table is that of the table with the number just below that
  rowid recorded.
\<close>

lemma sql_settled:
  "\<forall>r\<in>set (tableRows (tb\<lparr>lastRowid := sql_newRowid tb - 1\<rparr>)).
      rowidOf (r ''id'') \<le> lastRowid (tb\<lparr>lastRowid := sql_newRowid tb - 1\<rparr>)"
  "tableRows (tb\<lparr>lastRowid := sql_newRowid tb - 1\<rparr>) = [] \<longrightarrow>
      0 \<le> lastRowid (tb\<lparr>lastRowid := sql_newRowid tb - 1\<rparr>)"
proof -
  have "rowidOf (r ''id'') \<le> sql_newRowid tb - 1" if "r \<in> set (tableRows tb)" for r
    using sql_newRowid_above(2)[OF that] by simp
  then show "\<forall>r\<in>set (tableRows (tb\<lparr>lastRowid := sql_newRowid tb - 1\<rparr>)).
      rowidOf (r ''id'') \<le> lastRowid (tb\<lparr>lastRowid := sql_newRowid tb - 1\<rparr>)" by simp
  show "tableRows (tb\<lparr>lastRowid := sql_newRowid tb - 1\<rparr>) = [] \<longrightarrow>
      0 \<le> lastRowid (tb\<lparr>lastRowid := sql_newRowid tb - 1\<rparr>)"
    by (simp add: sql_newRowid_def max_def)
qed

lemma sql_insertUsers_defaultUsers:
  "sql_insertUsers defaultUsers tb =
     sql_insertUsers defaultUsers (tb\<lparr>lastRowid := sql_newRowid tb - 1\<rparr>)"
proof -
  let ?tb = "tb\<lparr>lastRowid := sql_newRowid tb - 1\<rparr>"
  have "sql_newRowid ?tb = sql_newRowid tb"
    using sql_newRowid_next[OF sql_settled, of tb] by simp
  then have "sql_insertUser name tb = sql_insertUser name ?tb" for name
    by (simp add: sql_insertUser_def)
  then show ?thesis by (simp add: defaultUsers_def)
qed

lemma sql_initializeUsers_eq:
  assumes "sql_newRowid (usersTable q) + 2 \<le> 2 ^ 63 - 1"
  shows "sql_initializeUsers q =
     (q\<lparr>usersTable := (usersTable q)
          \<lparr>tableRows := tableRows (usersTable q) @
                        sql_seeded (sql_newRowid (usersTable q)) (tableRows (usersTable q)),
           lastRowid := sql_newRowid (usersTable q) + 2\<rparr>\<rparr>, Inr True)"
proof -
  let ?tb = "(usersTable q)\<lparr>lastRowid := sql_newRowid (usersTable q) - 1\<rparr>"
  note inv = sql_settled[of "usersTable q"]
  have cap: "lastRowid ?tb + int (length defaultUsers) \<le> 2 ^ 63 - 1"
    using assms by (simp add: defaultUsers_def)
  have d: "distinct defaultUsers" by (simp add: defaultUsers_def)
  have l: "int (length defaultUsers) = 3" by (simp add: defaultUsers_def)
  show ?thesis
    unfolding sql_initializeUsers_def sql_insertUsers_defaultUsers[of "usersTable q"]
      sql_insertUsers_closed[OF inv cap d] sql_seeded_def l
    by simp
qed

lemma missingDefaults_sql_seeded: "missingDefaults (usrs @ sql_seeded g usrs) = []"
  by (simp add: sql_seeded_def missingDefaults_def defaultUsers_def hasName_def)

lemma sql_seeded_Nil: "missingDefaults usrs = [] \<Longrightarrow> sql_seeded g usrs = []"
  by (simp add: sql_seeded_def missingDefaults_def defaultUsers_def split: if_splits)

text \<open>
  A second seeding inserts no row; its three statements take three more rowids, which
  \<open>sqlite_sequence\<close> records.
\<close>

lemma sql_initializeUsers_twice:
  assumes "sql_newRowid (usersTable q) + 5 \<le> 2 ^ 63 - 1"
  shows "sql_initializeUsers (fst (sql_initializeUsers q)) =
           ((fst (sql_initializeUsers q))
              \<lparr>usersTable := (usersTable (fst (sql_initializeUsers q)))
                 \<lparr>lastRowid := sql_newRowid (usersTable q) + 5\<rparr>\<rparr>, Inr True)"
proof -
  let ?q = "fst (sql_initializeUsers q)"
  have one: "sql_newRowid (usersTable q) + 2 \<le> 2 ^ 63 - 1" using assms by simp
  have rows: "tableRows (usersTable ?q) =
                tableRows (usersTable q) @ sql_seeded (sql_newRowid (usersTable q)) (tableRows (usersTable q))"
    and last: "lastRowid (usersTable ?q) = sql_newRowid (usersTable q) + 2"
    by (simp_all add: sql_initializeUsers_eq[OF one])
  have inv: "\<forall>r\<in>set (tableRows (usersTable ?q)). rowidOf (r ''id'') \<le> lastRowid (usersTable ?q)"
  proof
    fix r
    assume "r \<in> set (tableRows (usersTable ?q))"
    then consider "r \<in> set (tableRows (usersTable q))"
      | "r \<in> set (sql_seeded (sql_newRowid (usersTable q)) (tableRows (usersTable q)))"
      unfolding rows by auto
    then show "rowidOf (r ''id'') \<le> lastRowid (usersTable ?q)"
    proof cases
      case 1
      then show ?thesis using sql_newRowid_above(2)[OF 1] last by simp
    next
      case 2
      then show ?thesis unfolding last
        by (auto simp: sql_seeded_def defaultUsers_def split: if_splits)
    qed
  qed
  have m: "missingDefaults (tableRows (usersTable ?q)) = []"
    unfolding rows by (rule missingDefaults_sql_seeded)
  have ne: "tableRows (usersTable ?q) = [] \<longrightarrow> 0 \<le> lastRowid (usersTable ?q)"
    using m by (auto simp: missingDefaults_def defaultUsers_def)
  have g: "sql_newRowid (usersTable ?q) = sql_newRowid (usersTable q) + 3"
    using sql_newRowid_next[OF inv ne] last by simp
  have two: "sql_newRowid (usersTable ?q) + 2 \<le> 2 ^ 63 - 1" using assms g by simp
  have n: "sql_seeded g' (tableRows (usersTable ?q)) = []" for g'
    using m by (rule sql_seeded_Nil)
  show ?thesis
    unfolding sql_initializeUsers_eq[OF two] n g by simp
qed

section \<open>The seeding is idempotent\<close>

text \<open>
  C9. \<open>initializeUsers\<close> appends to the user records one record for each of the default
  names Alwaly, Serge, Matar that no record carries, in that order, and nothing else: the
  records that were there stay as they are, in place, whatever their names, and so do the
  translations. A second call inserts nothing and leaves every user record as the first
  call left it. In the localStorage and the IndexedDB module the second call leaves the
  whole store as it was; in the SQLite module it leaves the rows of both tables as they
  were, and the three rowids its statements take move the number that
  \<open>sqlite_sequence\<close> holds for \<open>users\<close>, which no operation of the interface reads.
  Stated for the localStorage module, for the IndexedDB module on a user store whose keys
  all came from the key generator (the seeding is that store's only writer) and whose
  generator has three numbers left, and for the SQLite module on a user table with six
  rowids left.
\<close>

theorem initializeUsers_idempotent:
  shows "defaultUsers = [''Alwaly'', ''Serge'', ''Matar''] \<and>
         ls_userRows (fst (ls_initializeUsers clk s)) = ls_userRows s @ ls_seeded clk (ls_userRows s) \<and>
         map (\<lambda>u. u ''name'') (ls_seeded clk (ls_userRows s)) =
           map (\<lambda>name. Some (JStr name)) (missingDefaults (ls_userRows s)) \<and>
         ls_rows (fst (ls_initializeUsers clk s)) = ls_rows s \<and>
         fst (ls_initializeUsers clk' (fst (ls_initializeUsers clk s))) = fst (ls_initializeUsers clk s) \<and>
         (keysBelowGenerator (usersStore db) \<and> keyGenerator (usersStore db) \<le> 2 ^ 53 - 2 \<longrightarrow>
            snd (idb_initializeUsers db) = Inr True \<and>
            idb_getUsers (fst (idb_initializeUsers db)) =
              idb_getUsers db @ idb_seeded (keyGenerator (usersStore db)) (idb_getUsers db) \<and>
            idb_getAllTranslations (fst (idb_initializeUsers db)) = idb_getAllTranslations db \<and>
            idb_initializeUsers (fst (idb_initializeUsers db)) = (fst (idb_initializeUsers db), Inr True)) \<and>
         map (\<lambda>u. u ''name'') (idb_seeded g usrs) = map (\<lambda>name. Some (JStr name)) (missingDefaults usrs) \<and>
         (sql_newRowid (usersTable q) + 5 \<le> 2 ^ 63 - 1 \<longrightarrow>
            snd (sql_initializeUsers q) = Inr True \<and>
            tableRows (usersTable (fst (sql_initializeUsers q))) =
              tableRows (usersTable q) @ sql_seeded (sql_newRowid (usersTable q)) (tableRows (usersTable q)) \<and>
            lastRowid (usersTable (fst (sql_initializeUsers q))) = sql_newRowid (usersTable q) + 2 \<and>
            translationsTable (fst (sql_initializeUsers q)) = translationsTable q \<and>
            snd (sql_initializeUsers (fst (sql_initializeUsers q))) = Inr True \<and>
            tableRows (usersTable (fst (sql_initializeUsers (fst (sql_initializeUsers q))))) =
              tableRows (usersTable (fst (sql_initializeUsers q))) \<and>
            sql_getUsers (fst (sql_initializeUsers (fst (sql_initializeUsers q)))) =
              sql_getUsers (fst (sql_initializeUsers q)) \<and>
            translationsTable (fst (sql_initializeUsers (fst (sql_initializeUsers q)))) = translationsTable q \<and>
            lastRowid (usersTable (fst (sql_initializeUsers (fst (sql_initializeUsers q))))) =
              sql_newRowid (usersTable q) + 5) \<and>
         map (\<lambda>u. u ''name'') (sql_seeded g usrs) = map (\<lambda>name. Some (JStr name)) (missingDefaults usrs)"
proof -
  have a: "ls_rows (fst (ls_initializeUsers clk s)) = ls_rows s"
    using ls_rows_initDB[of s] by (simp add: ls_initializeUsers_eq) (simp add: ls_rows_def)
  have b: "keysBelowGenerator (usersStore db) \<and> keyGenerator (usersStore db) \<le> 2 ^ 53 - 2 \<longrightarrow>
            snd (idb_initializeUsers db) = Inr True \<and>
            idb_getUsers (fst (idb_initializeUsers db)) =
              idb_getUsers db @ idb_seeded (keyGenerator (usersStore db)) (idb_getUsers db) \<and>
            idb_getAllTranslations (fst (idb_initializeUsers db)) = idb_getAllTranslations db \<and>
            idb_initializeUsers (fst (idb_initializeUsers db)) = (fst (idb_initializeUsers db), Inr True)"
  proof
    assume h: "keysBelowGenerator (usersStore db) \<and> keyGenerator (usersStore db) \<le> 2 ^ 53 - 2"
    then have k: "keysBelowGenerator (usersStore db)" and g: "keyGenerator (usersStore db) \<le> 2 ^ 53 - 2"
      by (rule conjunct1, rule conjunct2)
    have b1: "snd (idb_initializeUsers db) = Inr True"
      and b2: "idb_getUsers (fst (idb_initializeUsers db)) =
              idb_getUsers db @ idb_seeded (keyGenerator (usersStore db)) (idb_getUsers db)"
      and b3: "idb_getAllTranslations (fst (idb_initializeUsers db)) = idb_getAllTranslations db"
      by (simp_all add: idb_initializeUsers_eq[OF k g] idb_getUsers_def idb_getAllTranslations_def)
    show "snd (idb_initializeUsers db) = Inr True \<and>
            idb_getUsers (fst (idb_initializeUsers db)) =
              idb_getUsers db @ idb_seeded (keyGenerator (usersStore db)) (idb_getUsers db) \<and>
            idb_getAllTranslations (fst (idb_initializeUsers db)) = idb_getAllTranslations db \<and>
            idb_initializeUsers (fst (idb_initializeUsers db)) = (fst (idb_initializeUsers db), Inr True)"
      by (intro conjI) (rule b1 b2 b3 idb_initializeUsers_twice[OF k g])+
  qed
  have c: "map (\<lambda>u. u ''name'') (idb_seeded g usrs) = map (\<lambda>name. Some (JStr name)) (missingDefaults usrs)"
    by (simp add: idb_seeded_def missingDefaults_def defaultUsers_def)
  have d: "sql_newRowid (usersTable q) + 5 \<le> 2 ^ 63 - 1 \<longrightarrow>
            snd (sql_initializeUsers q) = Inr True \<and>
            tableRows (usersTable (fst (sql_initializeUsers q))) =
              tableRows (usersTable q) @ sql_seeded (sql_newRowid (usersTable q)) (tableRows (usersTable q)) \<and>
            lastRowid (usersTable (fst (sql_initializeUsers q))) = sql_newRowid (usersTable q) + 2 \<and>
            translationsTable (fst (sql_initializeUsers q)) = translationsTable q \<and>
            snd (sql_initializeUsers (fst (sql_initializeUsers q))) = Inr True \<and>
            tableRows (usersTable (fst (sql_initializeUsers (fst (sql_initializeUsers q))))) =
              tableRows (usersTable (fst (sql_initializeUsers q))) \<and>
            sql_getUsers (fst (sql_initializeUsers (fst (sql_initializeUsers q)))) =
              sql_getUsers (fst (sql_initializeUsers q)) \<and>
            translationsTable (fst (sql_initializeUsers (fst (sql_initializeUsers q)))) = translationsTable q \<and>
            lastRowid (usersTable (fst (sql_initializeUsers (fst (sql_initializeUsers q))))) =
              sql_newRowid (usersTable q) + 5"
  proof
    assume two: "sql_newRowid (usersTable q) + 5 \<le> 2 ^ 63 - 1"
    then have one: "sql_newRowid (usersTable q) + 2 \<le> 2 ^ 63 - 1" by simp
    have d1: "snd (sql_initializeUsers q) = Inr True"
      and d2: "tableRows (usersTable (fst (sql_initializeUsers q))) =
              tableRows (usersTable q) @ sql_seeded (sql_newRowid (usersTable q)) (tableRows (usersTable q))"
      and d3: "lastRowid (usersTable (fst (sql_initializeUsers q))) = sql_newRowid (usersTable q) + 2"
      and d4: "translationsTable (fst (sql_initializeUsers q)) = translationsTable q"
      by (simp_all add: sql_initializeUsers_eq[OF one])
    have d5: "snd (sql_initializeUsers (fst (sql_initializeUsers q))) = Inr True"
      and d6: "tableRows (usersTable (fst (sql_initializeUsers (fst (sql_initializeUsers q))))) =
              tableRows (usersTable (fst (sql_initializeUsers q)))"
      and d8: "translationsTable (fst (sql_initializeUsers (fst (sql_initializeUsers q)))) = translationsTable q"
      and d9: "lastRowid (usersTable (fst (sql_initializeUsers (fst (sql_initializeUsers q))))) =
              sql_newRowid (usersTable q) + 5"
      by (simp_all add: sql_initializeUsers_twice[OF two] d4)
    have d7: "sql_getUsers (fst (sql_initializeUsers (fst (sql_initializeUsers q)))) =
              sql_getUsers (fst (sql_initializeUsers q))"
      unfolding sql_getUsers_def d6 by (rule refl)
    show "snd (sql_initializeUsers q) = Inr True \<and>
            tableRows (usersTable (fst (sql_initializeUsers q))) =
              tableRows (usersTable q) @ sql_seeded (sql_newRowid (usersTable q)) (tableRows (usersTable q)) \<and>
            lastRowid (usersTable (fst (sql_initializeUsers q))) = sql_newRowid (usersTable q) + 2 \<and>
            translationsTable (fst (sql_initializeUsers q)) = translationsTable q \<and>
            snd (sql_initializeUsers (fst (sql_initializeUsers q))) = Inr True \<and>
            tableRows (usersTable (fst (sql_initializeUsers (fst (sql_initializeUsers q))))) =
              tableRows (usersTable (fst (sql_initializeUsers q))) \<and>
            sql_getUsers (fst (sql_initializeUsers (fst (sql_initializeUsers q)))) =
              sql_getUsers (fst (sql_initializeUsers q)) \<and>
            translationsTable (fst (sql_initializeUsers (fst (sql_initializeUsers q)))) = translationsTable q \<and>
            lastRowid (usersTable (fst (sql_initializeUsers (fst (sql_initializeUsers q))))) =
              sql_newRowid (usersTable q) + 5"
      by (intro conjI) (rule d1 d2 d3 d4 d5 d6 d7 d8 d9)+
  qed
  have e: "map (\<lambda>u. u ''name'') (sql_seeded g usrs) = map (\<lambda>name. Some (JStr name)) (missingDefaults usrs)"
    by (simp add: sql_seeded_def missingDefaults_def defaultUsers_def)
  show ?thesis
    by (intro conjI)
       (rule defaultUsers_def ls_userRows_initializeUsers names_ls_seeded a ls_initializeUsers_twice b c d e)+
qed

text \<open>
  The theorem at three stores. localStorage holding Awa and Serge, the clock at 1000:
  Alwaly and Matar are appended with the ids 1002 and 1003. An IndexedDB user store
  holding Serge under the key 1, the generator at 2: Alwaly and Matar get the keys 2 and
  3. A SQLite user table holding Serge under the rowid 1: the three statements take the
  rowids 2, 3 and 4, Alwaly is inserted under 2, the row of Serge is dropped and Matar is
  inserted under 4; a second call leaves the three rows and moves the number recorded
  from 4 to 7. In each store a second call, at a later clock, leaves the user records as
  the first call left them.
\<close>

theorem initializeUsers_idempotent_witness:
  "keysBelowGenerator \<lparr>records = [[''name'' \<mapsto> JStr ''Serge'', ''id'' \<mapsto> JNum 1]], keyGenerator = 2\<rparr> \<and>
   sql_newRowid \<lparr>tableRows = [[''id'' \<mapsto> JNum 1, ''name'' \<mapsto> JStr ''Serge'']], lastRowid = 1\<rparr> = 2 \<and>
   map (\<lambda>u. (u ''id'', u ''name''))
     (ls_userRows (fst (ls_initializeUsers \<lparr>dateNow = \<lambda>k. 1000, isoNow = \<lambda>k. ''T''\<rparr>
        \<lparr>translations_data = None,
         users_data = Some [[''id'' \<mapsto> JNum 5, ''name'' \<mapsto> JStr ''Awa''],
                            [''id'' \<mapsto> JNum 6, ''name'' \<mapsto> JStr ''Serge'']]\<rparr>))) =
     [(Some (JNum 5), Some (JStr ''Awa'')), (Some (JNum 6), Some (JStr ''Serge'')),
      (Some (JNum 1002), Some (JStr ''Alwaly'')), (Some (JNum 1003), Some (JStr ''Matar''))] \<and>
   map (\<lambda>u. (u ''id'', u ''name''))
     (idb_getUsers (fst (idb_initializeUsers
        \<lparr>translationsStore = \<lparr>records = [], keyGenerator = 1\<rparr>,
         usersStore = \<lparr>records = [[''name'' \<mapsto> JStr ''Serge'', ''id'' \<mapsto> JNum 1]], keyGenerator = 2\<rparr>\<rparr>))) =
     [(Some (JNum 1), Some (JStr ''Serge'')), (Some (JNum 2), Some (JStr ''Alwaly'')),
      (Some (JNum 3), Some (JStr ''Matar''))] \<and>
   map (\<lambda>u. (u ''id'', u ''name''))
     (tableRows (usersTable (fst (sql_initializeUsers
        \<lparr>translationsTable = \<lparr>tableRows = [], lastRowid = 0\<rparr>,
         usersTable = \<lparr>tableRows = [[''id'' \<mapsto> JNum 1, ''name'' \<mapsto> JStr ''Serge'']], lastRowid = 1\<rparr>\<rparr>)))) =
     [(Some (JNum 1), Some (JStr ''Serge'')), (Some (JNum 2), Some (JStr ''Alwaly'')),
      (Some (JNum 4), Some (JStr ''Matar''))] \<and>
   lastRowid (usersTable (fst (sql_initializeUsers
        \<lparr>translationsTable = \<lparr>tableRows = [], lastRowid = 0\<rparr>,
         usersTable = \<lparr>tableRows = [[''id'' \<mapsto> JNum 1, ''name'' \<mapsto> JStr ''Serge'']], lastRowid = 1\<rparr>\<rparr>))) = 4 \<and>
   lastRowid (usersTable (fst (sql_initializeUsers (fst (sql_initializeUsers
        \<lparr>translationsTable = \<lparr>tableRows = [], lastRowid = 0\<rparr>,
         usersTable = \<lparr>tableRows = [[''id'' \<mapsto> JNum 1, ''name'' \<mapsto> JStr ''Serge'']], lastRowid = 1\<rparr>\<rparr>))))) = 7 \<and>
   map (\<lambda>u. (u ''id'', u ''name''))
     (ls_userRows (fst (ls_initializeUsers \<lparr>dateNow = \<lambda>k. 2000, isoNow = \<lambda>k. ''U''\<rparr>
        (fst (ls_initializeUsers \<lparr>dateNow = \<lambda>k. 1000, isoNow = \<lambda>k. ''T''\<rparr>
          \<lparr>translations_data = None,
           users_data = Some [[''id'' \<mapsto> JNum 5, ''name'' \<mapsto> JStr ''Awa''],
                              [''id'' \<mapsto> JNum 6, ''name'' \<mapsto> JStr ''Serge'']]\<rparr>))))) =
     [(Some (JNum 5), Some (JStr ''Awa'')), (Some (JNum 6), Some (JStr ''Serge'')),
      (Some (JNum 1002), Some (JStr ''Alwaly'')), (Some (JNum 1003), Some (JStr ''Matar''))] \<and>
   map (\<lambda>u. (u ''id'', u ''name''))
     (idb_getUsers (fst (idb_initializeUsers (fst (idb_initializeUsers
        \<lparr>translationsStore = \<lparr>records = [], keyGenerator = 1\<rparr>,
         usersStore = \<lparr>records = [[''name'' \<mapsto> JStr ''Serge'', ''id'' \<mapsto> JNum 1]], keyGenerator = 2\<rparr>\<rparr>))))) =
     [(Some (JNum 1), Some (JStr ''Serge'')), (Some (JNum 2), Some (JStr ''Alwaly'')),
      (Some (JNum 3), Some (JStr ''Matar''))] \<and>
   map (\<lambda>u. (u ''id'', u ''name''))
     (tableRows (usersTable (fst (sql_initializeUsers (fst (sql_initializeUsers
        \<lparr>translationsTable = \<lparr>tableRows = [], lastRowid = 0\<rparr>,
         usersTable = \<lparr>tableRows = [[''id'' \<mapsto> JNum 1, ''name'' \<mapsto> JStr ''Serge'']], lastRowid = 1\<rparr>\<rparr>)))))) =
     [(Some (JNum 1), Some (JStr ''Serge'')), (Some (JNum 2), Some (JStr ''Alwaly'')),
      (Some (JNum 4), Some (JStr ''Matar''))]"
proof -
  let ?clk = "\<lparr>dateNow = \<lambda>k. 1000, isoNow = \<lambda>k. ''T''\<rparr>"
  let ?s = "\<lparr>translations_data = None,
         users_data = Some [[''id'' \<mapsto> JNum 5, ''name'' \<mapsto> JStr ''Awa''],
                            [''id'' \<mapsto> JNum 6, ''name'' \<mapsto> JStr ''Serge'']]\<rparr>"
  let ?db = "\<lparr>translationsStore = \<lparr>records = [], keyGenerator = 1\<rparr>,
         usersStore = \<lparr>records = [[''name'' \<mapsto> JStr ''Serge'', ''id'' \<mapsto> JNum 1]], keyGenerator = 2\<rparr>\<rparr>"
  let ?q = "\<lparr>translationsTable = \<lparr>tableRows = [], lastRowid = 0\<rparr>,
         usersTable = \<lparr>tableRows = [[''id'' \<mapsto> JNum 1, ''name'' \<mapsto> JStr ''Serge'']], lastRowid = 1\<rparr>\<rparr>"
  have k: "keysBelowGenerator \<lparr>records = [[''name'' \<mapsto> JStr ''Serge'', ''id'' \<mapsto> JNum 1]], keyGenerator = 2\<rparr>"
    by (simp add: keysBelowGenerator_def)
  have n: "sql_newRowid \<lparr>tableRows = [[''id'' \<mapsto> JNum 1, ''name'' \<mapsto> JStr ''Serge'']], lastRowid = 1\<rparr> = 2"
    by (simp add: sql_newRowid_def)
  have k': "keysBelowGenerator (usersStore ?db) \<and> keyGenerator (usersStore ?db) \<le> 2 ^ 53 - 2"
    using k by simp
  have n': "sql_newRowid (usersTable ?q) = 2" using n by simp
  have cap: "sql_newRowid (usersTable ?q) + 5 \<le> 2 ^ 63 - 1" unfolding n' by simp
  let ?clk' = "\<lparr>dateNow = \<lambda>k. 2000, isoNow = \<lambda>k. ''U''\<rparr>"
  note T = initializeUsers_idempotent[where clk = ?clk and clk' = ?clk' and s = ?s and db = ?db and q = ?q]
  have A: "ls_userRows (fst (ls_initializeUsers ?clk ?s)) = ls_userRows ?s @ ls_seeded ?clk (ls_userRows ?s)"
    by (rule T[THEN conjunct2, THEN conjunct1])
  have B: "idb_getUsers (fst (idb_initializeUsers ?db)) =
           idb_getUsers ?db @ idb_seeded (keyGenerator (usersStore ?db)) (idb_getUsers ?db)"
    by (rule T[THEN conjunct2, THEN conjunct2, THEN conjunct2, THEN conjunct2, THEN conjunct2,
               THEN conjunct1, rule_format, OF k', THEN conjunct2, THEN conjunct1])
  note S = T[THEN conjunct2, THEN conjunct2, THEN conjunct2, THEN conjunct2, THEN conjunct2,
               THEN conjunct2, THEN conjunct2, THEN conjunct1, rule_format, OF cap]
  have C: "tableRows (usersTable (fst (sql_initializeUsers ?q))) =
           tableRows (usersTable ?q) @ sql_seeded (sql_newRowid (usersTable ?q)) (tableRows (usersTable ?q))"
    by (rule S[THEN conjunct2, THEN conjunct1])
  have D: "lastRowid (usersTable (fst (sql_initializeUsers ?q))) = sql_newRowid (usersTable ?q) + 2"
    by (rule S[THEN conjunct2, THEN conjunct2, THEN conjunct1])
  have E: "lastRowid (usersTable (fst (sql_initializeUsers (fst (sql_initializeUsers ?q))))) =
             sql_newRowid (usersTable ?q) + 5"
    by (rule S[THEN conjunct2, THEN conjunct2, THEN conjunct2, THEN conjunct2, THEN conjunct2,
               THEN conjunct2, THEN conjunct2, THEN conjunct2])
  have A': "map (\<lambda>u. (u ''id'', u ''name'')) (ls_userRows (fst (ls_initializeUsers ?clk ?s))) =
     [(Some (JNum 5), Some (JStr ''Awa'')), (Some (JNum 6), Some (JStr ''Serge'')),
      (Some (JNum 1002), Some (JStr ''Alwaly'')), (Some (JNum 1003), Some (JStr ''Matar''))]"
    unfolding A by (simp add: ls_userRows_def ls_seeded_def defaultUsers_def hasName_def toDouble_small)
  have B': "map (\<lambda>u. (u ''id'', u ''name'')) (idb_getUsers (fst (idb_initializeUsers ?db))) =
     [(Some (JNum 1), Some (JStr ''Serge'')), (Some (JNum 2), Some (JStr ''Alwaly'')),
      (Some (JNum 3), Some (JStr ''Matar''))]"
    unfolding B by (simp add: idb_getUsers_def idb_seeded_def missingDefaults_def defaultUsers_def hasName_def)
  have C': "map (\<lambda>u. (u ''id'', u ''name'')) (tableRows (usersTable (fst (sql_initializeUsers ?q)))) =
     [(Some (JNum 1), Some (JStr ''Serge'')), (Some (JNum 2), Some (JStr ''Alwaly'')),
      (Some (JNum 4), Some (JStr ''Matar''))]"
    unfolding C n' by (simp add: sql_seeded_def defaultUsers_def hasName_def)
  have D': "lastRowid (usersTable (fst (sql_initializeUsers ?q))) = 4"
    unfolding D n' by simp
  have E': "lastRowid (usersTable (fst (sql_initializeUsers (fst (sql_initializeUsers ?q))))) = 7"
    unfolding E n' by simp
  have F: "fst (ls_initializeUsers ?clk' (fst (ls_initializeUsers ?clk ?s))) = fst (ls_initializeUsers ?clk ?s)"
    by (rule T[THEN conjunct2, THEN conjunct2, THEN conjunct2, THEN conjunct2, THEN conjunct1])
  have G: "idb_initializeUsers (fst (idb_initializeUsers ?db)) = (fst (idb_initializeUsers ?db), Inr True)"
    by (rule T[THEN conjunct2, THEN conjunct2, THEN conjunct2, THEN conjunct2, THEN conjunct2,
               THEN conjunct1, rule_format, OF k', THEN conjunct2, THEN conjunct2, THEN conjunct2])
  have H: "tableRows (usersTable (fst (sql_initializeUsers (fst (sql_initializeUsers ?q))))) =
           tableRows (usersTable (fst (sql_initializeUsers ?q)))"
    by (rule S[THEN conjunct2, THEN conjunct2, THEN conjunct2, THEN conjunct2, THEN conjunct2,
               THEN conjunct1])
  have F': "map (\<lambda>u. (u ''id'', u ''name''))
              (ls_userRows (fst (ls_initializeUsers ?clk' (fst (ls_initializeUsers ?clk ?s))))) =
     [(Some (JNum 5), Some (JStr ''Awa'')), (Some (JNum 6), Some (JStr ''Serge'')),
      (Some (JNum 1002), Some (JStr ''Alwaly'')), (Some (JNum 1003), Some (JStr ''Matar''))]"
    unfolding F by (rule A')
  have G': "map (\<lambda>u. (u ''id'', u ''name''))
              (idb_getUsers (fst (idb_initializeUsers (fst (idb_initializeUsers ?db))))) =
     [(Some (JNum 1), Some (JStr ''Serge'')), (Some (JNum 2), Some (JStr ''Alwaly'')),
      (Some (JNum 3), Some (JStr ''Matar''))]"
    unfolding G fst_conv by (rule B')
  have H': "map (\<lambda>u. (u ''id'', u ''name''))
              (tableRows (usersTable (fst (sql_initializeUsers (fst (sql_initializeUsers ?q)))))) =
     [(Some (JNum 1), Some (JStr ''Serge'')), (Some (JNum 2), Some (JStr ''Alwaly'')),
      (Some (JNum 4), Some (JStr ''Matar''))]"
    unfolding H by (rule C')
  show ?thesis using k n A' B' C' D' E' F' G' H' by (simp only: simp_thms)
qed

section \<open>The update and the duplicate check of the localStorage module\<close>

lemma findIndex_Some:
  "findIndex p xs = Some i \<Longrightarrow> i < length xs \<and> p (xs ! i) \<and> (\<forall>j<i. \<not> p (xs ! j))"
proof (induction xs arbitrary: i)
  case Nil
  then show ?case by simp
next
  case (Cons x xs)
  show ?case
  proof (cases "p x")
    case True
    then show ?thesis using Cons.prems by auto
  next
    case False
    then obtain k where k: "findIndex p xs = Some k" "i = Suc k"
      using Cons.prems by (auto split: option.splits)
    from Cons.IH[OF k(1)] False k(2) show ?thesis
      by (auto simp: less_Suc_eq_0_disj)
  qed
qed

lemma findIndex_None: "(findIndex p xs = None) = (\<forall>x\<in>set xs. \<not> p x)"
  by (induction xs) (auto split: option.splits)

lemma ls_updateTranslation_eq:
  "ls_updateTranslation clk ident updates s =
     (case findIndex (\<lambda>t. t ''id'' = Some (JNum ident)) (ls_rows s) of
        None \<Rightarrow> (ls_initDB s, Inl (NotFound ident))
      | Some index \<Rightarrow>
          ((ls_initDB s)\<lparr>translations_data :=
              Some ((ls_rows s)[index := mergeUpdates (ls_rows s ! index) updates (isoNow clk 0)])\<rparr>,
           Inr (mergeUpdates (ls_rows s ! index) updates (isoNow clk 0))))"
  by (simp add: ls_updateTranslation_def Let_def translations_data_initDB split: option.splits)

lemma ls_rows_update: "ls_rows (s\<lparr>translations_data := Some ts\<rparr>) = ts"
  by (simp add: ls_rows_def)

lemma ls_rows_importTranslationsFromCSV:
  "ls_rows (fst (ls_importTranslationsFromCSV clk csvData s)) =
     ls_rows s @ ls_inserted clk (ls_rows s) 0 (dataRows csvData)"
  by (simp add: ls_importTranslationsFromCSV_eq ls_rows_update)

lemma ls_inserted_member:
  assumes "(i, w, f) \<in> set rows" and "\<not> pairExists stored f w"
  shows "\<exists>j. ls_record clk (j, i, w, f) \<in> set (ls_inserted clk stored n rows)"
proof -
  let ?kept = "filter (\<lambda>(i, w, f). \<not> pairExists stored f w) rows"
  have "(i, w, f) \<in> set ?kept" using assms by simp
  then obtain k where k: "k < length ?kept" "?kept ! k = (i, w, f)"
    unfolding in_set_conv_nth by blast
  then have "(n + k, i, w, f) \<in> set (enumerate n ?kept)"
    by (simp add: in_set_enumerate_eq)
  then have "ls_record clk (n + k, i, w, f) \<in> set (ls_inserted clk stored n rows)"
    unfolding ls_inserted_def set_map by (rule imageI)
  then show ?thesis by blast
qed

text \<open>
  C10. The duplicate check of the localStorage import looks at the current \<open>french\<close>
  and \<open>wolof\<close> of the stored records and at nothing else. So when an update has given
  a record a new wolof text, and no other record carries the record's original pair, the
  check answers false for the original pair although the record still holds it as
  (\<open>french\<close>, \<open>originalWolof\<close>), and importing a CSV with a row for that pair appends a
  second record with the same import-time pair, after the records that were there.
\<close>

theorem ls_import_after_correction_duplicates:
  assumes idx: "findIndex (\<lambda>t. t ''id'' = Some (JNum ident)) (ls_rows s) = Some index"
    and fr: "(ls_rows s ! index) ''french'' = Some (JStr f)"
    and ow: "(ls_rows s ! index) ''originalWolof'' = Some (JStr w)"
    and upd: "updates ''wolof'' = Some (JStr w')" "w' \<noteq> w"
             "updates ''french'' = None" "updates ''originalWolof'' = None"
    and others: "\<forall>j<length (ls_rows s). j \<noteq> index \<longrightarrow>
                   \<not> ((ls_rows s ! j) ''french'' = Some (JStr f) \<and> (ls_rows s ! j) ''wolof'' = Some (JStr w))"
    and row: "(i, w, f) \<in> set (dataRows csvData)"
  shows "translationExists (ls_initDB s) x y =
           Inr (list_ex (\<lambda>t. t ''french'' = Some (JStr x) \<and> t ''wolof'' = Some (JStr y)) (ls_rows s)) \<and>
         translationExists (fst (ls_updateTranslation clk ident updates s)) f w = Inr False \<and>
         (ls_rows (fst (ls_updateTranslation clk ident updates s)) ! index) ''french'' = Some (JStr f) \<and>
         (ls_rows (fst (ls_updateTranslation clk ident updates s)) ! index) ''originalWolof'' = Some (JStr w) \<and>
         take (length (ls_rows s))
           (ls_rows (fst (ls_importTranslationsFromCSV clk' csvData
                            (fst (ls_updateTranslation clk ident updates s))))) =
           ls_rows (fst (ls_updateTranslation clk ident updates s)) \<and>
         (\<exists>t \<in> set (drop (length (ls_rows s))
                      (ls_rows (fst (ls_importTranslationsFromCSV clk' csvData
                                       (fst (ls_updateTranslation clk ident updates s)))))).
            t ''french'' = Some (JStr f) \<and> t ''originalWolof'' = Some (JStr w) \<and>
            t ''wolof'' = Some (JStr w) \<and> t ''status'' = Some (JStr ''pending''))"
proof -
  let ?rows = "ls_rows s"
  let ?m = "mergeUpdates (?rows ! index) updates (isoNow clk 0)"
  let ?s1 = "fst (ls_updateTranslation clk ident updates s)"
  let ?rows1 = "?rows[index := ?m]"
  have i: "index < length ?rows" using findIndex_Some[OF idx] by simp
  have s1: "?s1 = (ls_initDB s)\<lparr>translations_data := Some ?rows1\<rparr>"
    by (simp add: ls_updateTranslation_eq idx)
  have rows1: "ls_rows ?s1 = ?rows1" by (simp add: s1 ls_rows_update)
  have mf: "?m ''french'' = Some (JStr f)" using fr upd by (simp add: mergeUpdates_def map_add_def)
  have mo: "?m ''originalWolof'' = Some (JStr w)" using ow upd by (simp add: mergeUpdates_def map_add_def)
  have mw: "?m ''wolof'' = Some (JStr w')" using upd by (simp add: mergeUpdates_def map_add_def)
  have none: "\<not> pairExists ?rows1 f w"
  proof
    assume "pairExists ?rows1 f w"
    then obtain t where t: "t \<in> set ?rows1" "t ''french'' = Some (JStr f)" "t ''wolof'' = Some (JStr w)"
      by (auto simp: pairExists_def list_ex_iff)
    then obtain j where j: "j < length ?rows" "?rows1 ! j = t"
      by (auto simp: in_set_conv_nth)
    show False
    proof (cases "j = index")
      case True
      then have "t = ?m" using j i by simp
      then show False using t mw upd by simp
    next
      case False
      then have "t = ?rows ! j" using j by simp
      then show False using others j False t by blast
    qed
  qed
  have a: "translationExists (ls_initDB s) x y =
           Inr (list_ex (\<lambda>t. t ''french'' = Some (JStr x) \<and> t ''wolof'' = Some (JStr y)) ?rows)"
    by (simp add: translationExists_def translations_data_initDB)
  have b: "translationExists ?s1 f w = Inr False"
    using none by (simp add: s1 translationExists_Some[of _ ?rows1])
  have c: "(ls_rows ?s1 ! index) ''french'' = Some (JStr f)"
    and d: "(ls_rows ?s1 ! index) ''originalWolof'' = Some (JStr w)"
    using i mf mo by (simp_all add: rows1)
  let ?rows2 = "ls_rows (fst (ls_importTranslationsFromCSV clk' csvData ?s1))"
  have rows2: "?rows2 = ?rows1 @ ls_inserted clk' ?rows1 0 (dataRows csvData)"
    by (simp add: ls_rows_importTranslationsFromCSV rows1)
  have e: "take (length ?rows) ?rows2 = ls_rows ?s1"
    by (simp add: rows2 rows1)
  obtain j where j: "ls_record clk' (j, i, w, f) \<in> set (ls_inserted clk' ?rows1 0 (dataRows csvData))"
    using ls_inserted_member[OF row none] by blast
  have dr: "drop (length ?rows) ?rows2 = ls_inserted clk' ?rows1 0 (dataRows csvData)"
    by (simp add: rows2)
  have g: "\<exists>t \<in> set (drop (length ?rows) ?rows2).
            t ''french'' = Some (JStr f) \<and> t ''originalWolof'' = Some (JStr w) \<and>
            t ''wolof'' = Some (JStr w) \<and> t ''status'' = Some (JStr ''pending'')"
    unfolding dr using j
    by (intro bexI[of _ "ls_record clk' (j, i, w, f)"]) (simp_all add: ls_record_def newTranslation_def)
  show ?thesis using a b c d e g by blast
qed

theorem ls_import_after_correction_duplicates_witness:
  "findIndex (\<lambda>t. t ''id'' = Some (JNum 1))
     (ls_rows \<lparr>translations_data = Some
        [[''id'' \<mapsto> JNum 1, ''french'' \<mapsto> JStr ''bonjour'', ''wolof'' \<mapsto> JStr ''salam'',
          ''status'' \<mapsto> JStr ''pending'', ''originalWolof'' \<mapsto> JStr ''salam'']],
        users_data = None\<rparr>) = Some 0 \<and>
   (1, ''salam'', ''bonjour'') \<in> set (dataRows (''Wolof,French'' @ [CHR 0x0A] @ ''salam,bonjour'')) \<and>
   translationExists
     (fst (ls_updateTranslation \<lparr>dateNow = \<lambda>k. 1000, isoNow = \<lambda>k. ''T1''\<rparr> 1
        [''wolof'' \<mapsto> JStr ''salaam'', ''status'' \<mapsto> JStr ''pending'',
         ''correctedBy'' \<mapsto> JStr ''Serge'', ''hasBeenCorrected'' \<mapsto> JBool True]
        \<lparr>translations_data = Some
          [[''id'' \<mapsto> JNum 1, ''french'' \<mapsto> JStr ''bonjour'', ''wolof'' \<mapsto> JStr ''salam'',
            ''status'' \<mapsto> JStr ''pending'', ''originalWolof'' \<mapsto> JStr ''salam'']],
         users_data = None\<rparr>))
     ''bonjour'' ''salam'' = Inr False \<and>
   map (\<lambda>t. (t ''french'', t ''originalWolof'', t ''wolof''))
     (ls_rows (fst (ls_importTranslationsFromCSV \<lparr>dateNow = \<lambda>k. 2000, isoNow = \<lambda>k. ''T2''\<rparr>
        (''Wolof,French'' @ [CHR 0x0A] @ ''salam,bonjour'')
        (fst (ls_updateTranslation \<lparr>dateNow = \<lambda>k. 1000, isoNow = \<lambda>k. ''T1''\<rparr> 1
           [''wolof'' \<mapsto> JStr ''salaam'', ''status'' \<mapsto> JStr ''pending'',
            ''correctedBy'' \<mapsto> JStr ''Serge'', ''hasBeenCorrected'' \<mapsto> JBool True]
           \<lparr>translations_data = Some
             [[''id'' \<mapsto> JNum 1, ''french'' \<mapsto> JStr ''bonjour'', ''wolof'' \<mapsto> JStr ''salam'',
               ''status'' \<mapsto> JStr ''pending'', ''originalWolof'' \<mapsto> JStr ''salam'']],
            users_data = None\<rparr>))))) =
     [(Some (JStr ''bonjour''), Some (JStr ''salam''), Some (JStr ''salaam'')),
      (Some (JStr ''bonjour''), Some (JStr ''salam''), Some (JStr ''salam''))]"
proof -
  let ?s = "\<lparr>translations_data = Some
        [[''id'' \<mapsto> JNum 1, ''french'' \<mapsto> JStr ''bonjour'', ''wolof'' \<mapsto> JStr ''salam'',
          ''status'' \<mapsto> JStr ''pending'', ''originalWolof'' \<mapsto> JStr ''salam'']],
        users_data = None\<rparr>"
  let ?u = "[''wolof'' \<mapsto> JStr ''salaam'', ''status'' \<mapsto> JStr ''pending'',
         ''correctedBy'' \<mapsto> JStr ''Serge'', ''hasBeenCorrected'' \<mapsto> JBool True]"
  let ?csv = "''Wolof,French'' @ [CHR 0x0A] @ ''salam,bonjour''"
  let ?clk = "\<lparr>dateNow = \<lambda>k. 1000, isoNow = \<lambda>k. ''T1''\<rparr>"
  let ?clk' = "\<lparr>dateNow = \<lambda>k. 2000, isoNow = \<lambda>k. ''T2''\<rparr>"
  have rs: "ls_rows ?s =
        [[''id'' \<mapsto> JNum 1, ''french'' \<mapsto> JStr ''bonjour'', ''wolof'' \<mapsto> JStr ''salam'',
          ''status'' \<mapsto> JStr ''pending'', ''originalWolof'' \<mapsto> JStr ''salam'']]"
    by (simp add: ls_rows_def)
  have h1: "findIndex (\<lambda>t. t ''id'' = Some (JNum 1)) (ls_rows ?s) = Some 0"
    by (simp add: rs)
  have h2: "(ls_rows ?s ! 0) ''french'' = Some (JStr ''bonjour'')" by (simp add: rs)
  have h3: "(ls_rows ?s ! 0) ''originalWolof'' = Some (JStr ''salam'')" by (simp add: rs)
  have h4: "?u ''wolof'' = Some (JStr ''salaam'')" by simp
  have h5: "''salaam'' \<noteq> ''salam''" by simp
  have h6: "?u ''french'' = None" by simp
  have h7: "?u ''originalWolof'' = None" by simp
  have h8: "\<forall>j<length (ls_rows ?s). j \<noteq> 0 \<longrightarrow>
              \<not> ((ls_rows ?s ! j) ''french'' = Some (JStr ''bonjour'') \<and>
                 (ls_rows ?s ! j) ''wolof'' = Some (JStr ''salam''))"
    by (simp add: rs)
  have dr: "dataRows ?csv = [(1, ''salam'', ''bonjour'')]"
    by (simp add: dataRows_def rowsFrom_def specRow_def trim_def whiteSpaces_def stripStart_Nil stripStart_Cons Let_def)
  have h9: "(1, ''salam'', ''bonjour'') \<in> set (dataRows ?csv)" unfolding dr by simp
  note T = ls_import_after_correction_duplicates[OF h1 h2 h3 h4 h5 h6 h7 h8 h9, of _ _ ?clk ?clk']
  have b: "translationExists (fst (ls_updateTranslation ?clk 1 ?u ?s)) ''bonjour'' ''salam'' = Inr False"
    by (rule T[THEN conjunct2, THEN conjunct1])
  have rows2: "map (\<lambda>t. (t ''french'', t ''originalWolof'', t ''wolof''))
     (ls_rows (fst (ls_importTranslationsFromCSV ?clk' ?csv (fst (ls_updateTranslation ?clk 1 ?u ?s))))) =
     [(Some (JStr ''bonjour''), Some (JStr ''salam''), Some (JStr ''salaam'')),
      (Some (JStr ''bonjour''), Some (JStr ''salam''), Some (JStr ''salam''))]"
    unfolding ls_rows_importTranslationsFromCSV dr
    by (simp add: ls_updateTranslation_eq rs ls_rows_update
          ls_inserted_def pairExists_def ls_record_def newTranslation_def mergeUpdates_def map_add_def)
  show ?thesis using h1 h9 b rows2 by (simp only: simp_thms)
qed

section \<open>The update\<close>

lemma mergeUpdates_field:
  "mergeUpdates old updates now k =
     (if k = ''lastUpdated'' then Some (JStr now)
      else (case updates k of None \<Rightarrow> old k | Some v \<Rightarrow> Some v))"
  by (simp add: mergeUpdates_def map_add_def)

lemma idb_get_Some:
  "idb_get ident st = Some t \<Longrightarrow> t \<in> set (records st) \<and> t ''id'' = Some (JNum ident)"
  by (auto simp: idb_get_def find_Some_iff)

lemma idb_get_None:
  "(idb_get ident st = None) = (\<forall>r\<in>set (records st). r ''id'' \<noteq> Some (JNum ident))"
  by (auto simp: idb_get_def find_None_iff)

lemma storeAtKey_replace:
  "list_ex (\<lambda>r. r ''id'' = v ''id'') rs \<Longrightarrow>
     storeAtKey v rs = map (\<lambda>r. if r ''id'' = v ''id'' then v else r) rs"
  by (simp add: storeAtKey_def)

text \<open>
  The update of the localStorage module on an id that is present: the first record of
  that id is replaced in place by the merged object, whatever the partial fields name;
  every other record and the users stay as they are.
\<close>

lemma ls_updateTranslation_present:
  assumes "findIndex (\<lambda>t. t ''id'' = Some (JNum ident)) (ls_rows s) = Some index"
  shows "index < length (ls_rows s)"
    and "(ls_rows s ! index) ''id'' = Some (JNum ident)"
    and "snd (ls_updateTranslation clk ident updates s) =
           Inr (mergeUpdates (ls_rows s ! index) updates (isoNow clk 0))"
    and "ls_rows (fst (ls_updateTranslation clk ident updates s)) =
           (ls_rows s)[index := mergeUpdates (ls_rows s ! index) updates (isoNow clk 0)]"
    and "ls_userRows (fst (ls_updateTranslation clk ident updates s)) = ls_userRows s"
proof -
  show "index < length (ls_rows s)" "(ls_rows s ! index) ''id'' = Some (JNum ident)"
    using findIndex_Some[OF assms] by simp_all
  show "snd (ls_updateTranslation clk ident updates s) =
             Inr (mergeUpdates (ls_rows s ! index) updates (isoNow clk 0))"
    by (simp add: ls_updateTranslation_eq assms)
  show "ls_rows (fst (ls_updateTranslation clk ident updates s)) =
             (ls_rows s)[index := mergeUpdates (ls_rows s ! index) updates (isoNow clk 0)]"
    by (simp add: ls_updateTranslation_eq assms ls_rows_update)
  show "ls_userRows (fst (ls_updateTranslation clk ident updates s)) = ls_userRows s"
    using ls_userRows_initDB[of s]
    by (simp add: ls_updateTranslation_eq assms) (simp add: ls_userRows_def)
qed

text \<open>
  The update of the IndexedDB module on an id that is present, when the partial fields
  name no id or the record's own id: the record of that key is replaced by the merged
  object and every other record stays as it is.
\<close>

lemma idb_updateTranslation_present:
  assumes got: "idb_get ident (translationsStore db) = Some t"
    and own: "updates ''id'' = None \<or> updates ''id'' = Some (JNum ident)"
  shows "idb_updateTranslation clk ident updates db =
           (db\<lparr>translationsStore := (translationsStore db)
                 \<lparr>records := map (\<lambda>r. if r ''id'' = Some (JNum ident)
                                        then mergeUpdates t updates (isoNow clk 0) else r)
                                (records (translationsStore db)),
                  keyGenerator := max (keyGenerator (translationsStore db)) (min ident (2 ^ 53) + 1)\<rparr>\<rparr>,
            Inr (mergeUpdates t updates (isoNow clk 0)))"
proof -
  let ?m = "mergeUpdates t updates (isoNow clk 0)"
  have t: "t \<in> set (records (translationsStore db))" "t ''id'' = Some (JNum ident)"
    using idb_get_Some[OF got] by simp_all
  have mid: "?m ''id'' = Some (JNum ident)"
    using own t(2) by (auto simp: mergeUpdates_field)
  have "list_ex (\<lambda>r. r ''id'' = ?m ''id'') (records (translationsStore db))"
    using t mid by (auto simp: list_ex_iff)
  then have "storeAtKey ?m (records (translationsStore db)) =
             map (\<lambda>r. if r ''id'' = Some (JNum ident) then ?m else r) (records (translationsStore db))"
    using storeAtKey_replace[of ?m] mid by simp
  then show ?thesis
    using got mid by (simp add: idb_updateTranslation_def Let_def idb_put_def)
qed

text \<open>
  An id that no record carries: the localStorage module throws \<open>NotFound\<close> and leaves
  the records as they are.
\<close>

lemma ls_updateTranslation_unknown:
  assumes "\<forall>r\<in>set (ls_rows s). r ''id'' \<noteq> Some (JNum ident)"
  shows "snd (ls_updateTranslation clk ident updates s) = Inl (NotFound ident) \<and>
         ls_rows (fst (ls_updateTranslation clk ident updates s)) = ls_rows s \<and>
         ls_userRows (fst (ls_updateTranslation clk ident updates s)) = ls_userRows s"
proof -
  have "findIndex (\<lambda>t. t ''id'' = Some (JNum ident)) (ls_rows s) = None"
    unfolding findIndex_None using assms by simp
  then show ?thesis
    by (simp add: ls_updateTranslation_eq ls_rows_initDB ls_userRows_initDB)
qed

text \<open>
  The IndexedDB module has no such check: \<open>store.get\<close> gives \<open>undefined\<close>, the merged
  object holds the partial fields and \<open>lastUpdated\<close> only, and \<open>store.put\<close> stores
  it under a generated key. The call succeeds and the store has one record more.
\<close>

lemma idb_updateTranslation_unknown:
  assumes "\<forall>r\<in>set (idb_getAllTranslations db). r ''id'' \<noteq> Some (JNum ident)"
    and "updates ''id'' = None"
    and "keysBelowGenerator (translationsStore db)"
    and "keyGenerator (translationsStore db) \<le> 2 ^ 53"
  shows "snd (idb_updateTranslation clk ident updates db) =
           Inr (mergeUpdates Map.empty updates (isoNow clk 0)) \<and>
         idb_getAllTranslations (fst (idb_updateTranslation clk ident updates db)) =
           idb_getAllTranslations db @
           [(mergeUpdates Map.empty updates (isoNow clk 0))
              (''id'' \<mapsto> JNum (keyGenerator (translationsStore db)))]"
proof -
  let ?m = "mergeUpdates Map.empty updates (isoNow clk 0)"
  let ?st = "translationsStore db"
  have g: "idb_get ident ?st = None"
    unfolding idb_get_None using assms(1) by (simp add: idb_getAllTranslations_def)
  have mid: "?m ''id'' = None" using assms(2) by (simp add: mergeUpdates_field)
  have "storeAtKey (?m(''id'' \<mapsto> JNum (keyGenerator ?st))) (records ?st) =
          records ?st @ [?m(''id'' \<mapsto> JNum (keyGenerator ?st))]"
    using assms(3) by (intro storeAtKey_fresh[of "keyGenerator ?st"]) (simp_all add: keysBelowGenerator_def)
  then have "idb_put ?m ?st =
          Inr (?st\<lparr>records := records ?st @ [?m(''id'' \<mapsto> JNum (keyGenerator ?st))],
                   keyGenerator := keyGenerator ?st + 1\<rparr>)"
    using mid assms(4) by (simp add: idb_put_def)
  then show ?thesis
    using g by (simp add: idb_updateTranslation_def Let_def idb_getAllTranslations_def)
qed

text \<open>
  C5 at a failing input, in the IndexedDB module. The store holds the records of id 1 and
  id 2; \<open>updateTranslation(1, {id: 2})\<close> merges the partial fields into the record of id
  1 and puts the merged object under the key it carries, which is 2. The record the call
  targets stays as it was, its \<open>lastUpdated\<close> too, and the record of id 2, which the
  call did not target, is overwritten. On the same input the localStorage module sets the
  named field on the record it targets, refreshes its \<open>lastUpdated\<close> and leaves the
  other record as it was.
\<close>

theorem idb_updateTranslation_other_id_overwrites:
  "idb_get 1 \<lparr>records =
        [[''id'' \<mapsto> JNum 1, ''wolof'' \<mapsto> JStr ''a'', ''lastUpdated'' \<mapsto> JStr ''T0''],
         [''id'' \<mapsto> JNum 2, ''wolof'' \<mapsto> JStr ''b'', ''lastUpdated'' \<mapsto> JStr ''T0'']],
        keyGenerator = 3\<rparr> =
     Some [''id'' \<mapsto> JNum 1, ''wolof'' \<mapsto> JStr ''a'', ''lastUpdated'' \<mapsto> JStr ''T0''] \<and>
   map (\<lambda>r. (r ''id'', r ''wolof'', r ''lastUpdated''))
     (idb_getAllTranslations (fst (idb_updateTranslation \<lparr>dateNow = \<lambda>k. 1000, isoNow = \<lambda>k. ''T1''\<rparr> 1
        [''id'' \<mapsto> JNum 2]
        \<lparr>translationsStore = \<lparr>records =
          [[''id'' \<mapsto> JNum 1, ''wolof'' \<mapsto> JStr ''a'', ''lastUpdated'' \<mapsto> JStr ''T0''],
           [''id'' \<mapsto> JNum 2, ''wolof'' \<mapsto> JStr ''b'', ''lastUpdated'' \<mapsto> JStr ''T0'']],
          keyGenerator = 3\<rparr>,
         usersStore = \<lparr>records = [], keyGenerator = 1\<rparr>\<rparr>))) =
     [(Some (JNum 1), Some (JStr ''a''), Some (JStr ''T0'')),
      (Some (JNum 2), Some (JStr ''a''), Some (JStr ''T1''))] \<and>
   map (\<lambda>r. (r ''id'', r ''wolof'', r ''lastUpdated''))
     (ls_rows (fst (ls_updateTranslation \<lparr>dateNow = \<lambda>k. 1000, isoNow = \<lambda>k. ''T1''\<rparr> 1
        [''id'' \<mapsto> JNum 2]
        \<lparr>translations_data = Some
          [[''id'' \<mapsto> JNum 1, ''wolof'' \<mapsto> JStr ''a'', ''lastUpdated'' \<mapsto> JStr ''T0''],
           [''id'' \<mapsto> JNum 2, ''wolof'' \<mapsto> JStr ''b'', ''lastUpdated'' \<mapsto> JStr ''T0'']],
         users_data = Some []\<rparr>))) =
     [(Some (JNum 2), Some (JStr ''a''), Some (JStr ''T1'')),
      (Some (JNum 2), Some (JStr ''b''), Some (JStr ''T0''))]"
  by (simp add: idb_updateTranslation_def idb_get_def idb_put_def storeAtKey_def
        idb_getAllTranslations_def mergeUpdates_def map_add_def Let_def
        ls_updateTranslation_def ls_initDB_def ls_rows_def)

text \<open>
  C8 at a failing input, in the IndexedDB module. The store holds one record, of id 1;
  \<open>updateTranslation(7, {status: 'validated'})\<close>, which is no import, succeeds and
  leaves two records: the one that was there and a new one under the generated key 2,
  holding the partial fields and \<open>lastUpdated\<close> only. On the same input the
  localStorage module throws \<open>NotFound\<close> and keeps its one record.
\<close>

theorem idb_updateTranslation_creates_record:
  "map (\<lambda>r. (r ''id'', r ''french'', r ''wolof'', r ''status''))
     (idb_getAllTranslations
        \<lparr>translationsStore = \<lparr>records =
          [[''id'' \<mapsto> JNum 1, ''french'' \<mapsto> JStr ''bonjour'', ''wolof'' \<mapsto> JStr ''salam'',
            ''status'' \<mapsto> JStr ''pending'']],
          keyGenerator = 2\<rparr>,
         usersStore = \<lparr>records = [], keyGenerator = 1\<rparr>\<rparr>) =
     [(Some (JNum 1), Some (JStr ''bonjour''), Some (JStr ''salam''), Some (JStr ''pending''))] \<and>
   (case snd (idb_updateTranslation \<lparr>dateNow = \<lambda>k. 1000, isoNow = \<lambda>k. ''T1''\<rparr> 7
        [''status'' \<mapsto> JStr ''validated'']
        \<lparr>translationsStore = \<lparr>records =
          [[''id'' \<mapsto> JNum 1, ''french'' \<mapsto> JStr ''bonjour'', ''wolof'' \<mapsto> JStr ''salam'',
            ''status'' \<mapsto> JStr ''pending'']],
          keyGenerator = 2\<rparr>,
         usersStore = \<lparr>records = [], keyGenerator = 1\<rparr>\<rparr>) of
      Inl e \<Rightarrow> None
    | Inr updatedTranslation \<Rightarrow>
        Some (updatedTranslation ''id'', updatedTranslation ''status'', updatedTranslation ''lastUpdated'')) =
     Some (None, Some (JStr ''validated''), Some (JStr ''T1'')) \<and>
   map (\<lambda>r. (r ''id'', r ''french'', r ''wolof'', r ''status''))
     (idb_getAllTranslations (fst (idb_updateTranslation \<lparr>dateNow = \<lambda>k. 1000, isoNow = \<lambda>k. ''T1''\<rparr> 7
        [''status'' \<mapsto> JStr ''validated'']
        \<lparr>translationsStore = \<lparr>records =
          [[''id'' \<mapsto> JNum 1, ''french'' \<mapsto> JStr ''bonjour'', ''wolof'' \<mapsto> JStr ''salam'',
            ''status'' \<mapsto> JStr ''pending'']],
          keyGenerator = 2\<rparr>,
         usersStore = \<lparr>records = [], keyGenerator = 1\<rparr>\<rparr>))) =
     [(Some (JNum 1), Some (JStr ''bonjour''), Some (JStr ''salam''), Some (JStr ''pending'')),
      (Some (JNum 2), None, None, Some (JStr ''validated''))] \<and>
   snd (ls_updateTranslation \<lparr>dateNow = \<lambda>k. 1000, isoNow = \<lambda>k. ''T1''\<rparr> 7
        [''status'' \<mapsto> JStr ''validated'']
        \<lparr>translations_data = Some
          [[''id'' \<mapsto> JNum 1, ''french'' \<mapsto> JStr ''bonjour'', ''wolof'' \<mapsto> JStr ''salam'',
            ''status'' \<mapsto> JStr ''pending'']],
         users_data = Some []\<rparr>) = Inl (NotFound 7) \<and>
   map (\<lambda>r. (r ''id'', r ''french'', r ''wolof'', r ''status''))
     (ls_rows (fst (ls_updateTranslation \<lparr>dateNow = \<lambda>k. 1000, isoNow = \<lambda>k. ''T1''\<rparr> 7
        [''status'' \<mapsto> JStr ''validated'']
        \<lparr>translations_data = Some
          [[''id'' \<mapsto> JNum 1, ''french'' \<mapsto> JStr ''bonjour'', ''wolof'' \<mapsto> JStr ''salam'',
            ''status'' \<mapsto> JStr ''pending'']],
         users_data = Some []\<rparr>))) =
     [(Some (JNum 1), Some (JStr ''bonjour''), Some (JStr ''salam''), Some (JStr ''pending''))]"
  by (simp add: idb_updateTranslation_def idb_get_def idb_put_def storeAtKey_def
        idb_getAllTranslations_def mergeUpdates_def map_add_def Let_def
        ls_updateTranslation_def ls_initDB_def ls_rows_def)

section \<open>Importing the same text twice\<close>

lemma pairExists_append: "pairExists (xs @ ys) f w = (pairExists xs f w \<or> pairExists ys f w)"
  by (simp add: pairExists_def)

lemma pairExists_ls_record: "ls_record clk (j, i, w, f) \<in> set rs \<Longrightarrow> pairExists rs f w"
proof -
  assume a: "ls_record clk (j, i, w, f) \<in> set rs"
  have "ls_record clk (j, i, w, f) ''french'' = Some (JStr f) \<and>
        ls_record clk (j, i, w, f) ''wolof'' = Some (JStr w)"
    by (simp add: ls_record_def newTranslation_def)
  then show ?thesis using a unfolding pairExists_def list_ex_iff by blast
qed

lemma ls_import_covers:
  assumes "(i, w, f) \<in> set rows"
  shows "pairExists (stored @ ls_inserted clk stored n rows) f w"
proof (cases "pairExists stored f w")
  case True
  then show ?thesis by (simp add: pairExists_append)
next
  case False
  obtain j where "ls_record clk (j, i, w, f) \<in> set (ls_inserted clk stored n rows)"
    using ls_inserted_member[OF assms False] by blast
  then show ?thesis by (simp add: pairExists_append pairExists_ls_record)
qed

text \<open>
  The localStorage import is idempotent: a second import of the same text, at any later
  clock, appends nothing.
\<close>

lemma ls_import_twice:
  "ls_rows (fst (ls_importTranslationsFromCSV clk' csvData (fst (ls_importTranslationsFromCSV clk csvData s)))) =
   ls_rows (fst (ls_importTranslationsFromCSV clk csvData s))"
proof -
  let ?rows1 = "ls_rows s @ ls_inserted clk (ls_rows s) 0 (dataRows csvData)"
  have "filter (\<lambda>(i, w, f). \<not> pairExists ?rows1 f w) (dataRows csvData) = []"
    using ls_import_covers[of _ _ _ "dataRows csvData" "ls_rows s" clk 0]
    by (auto simp: filter_empty_conv)
  then have "ls_inserted clk' ?rows1 0 (dataRows csvData) = []"
    by (simp add: ls_inserted_def)
  then show ?thesis by (simp add: ls_rows_importTranslationsFromCSV)
qed

section \<open>Where the modules part ways\<close>

text \<open>
  C3 at a failing input. In an empty IndexedDB store no id is present;
  \<open>updateTranslation(7, {status: 'validated', validatedBy: 'Alwaly'})\<close> succeeds with
  the merged object and leaves a record under the key 1. On the same input the
  localStorage module throws \<open>NotFound\<close> and stays empty.
\<close>

theorem idb_updateTranslation_unknown_id_inserts:
  "idb_get 7 \<lparr>records = [], keyGenerator = 1\<rparr> = None \<and>
   (\<exists>merged. snd (idb_updateTranslation \<lparr>dateNow = \<lambda>k. 1000, isoNow = \<lambda>k. ''T1''\<rparr> 7
        [''status'' \<mapsto> JStr ''validated'', ''validatedBy'' \<mapsto> JStr ''Alwaly'']
        \<lparr>translationsStore = \<lparr>records = [], keyGenerator = 1\<rparr>,
         usersStore = \<lparr>records = [], keyGenerator = 1\<rparr>\<rparr>) = Inr merged) \<and>
   map (\<lambda>r. (r ''id'', r ''french'', r ''wolof'', r ''status'', r ''validatedBy'', r ''lastUpdated''))
     (idb_getAllTranslations (fst (idb_updateTranslation \<lparr>dateNow = \<lambda>k. 1000, isoNow = \<lambda>k. ''T1''\<rparr> 7
        [''status'' \<mapsto> JStr ''validated'', ''validatedBy'' \<mapsto> JStr ''Alwaly'']
        \<lparr>translationsStore = \<lparr>records = [], keyGenerator = 1\<rparr>,
         usersStore = \<lparr>records = [], keyGenerator = 1\<rparr>\<rparr>))) =
     [(Some (JNum 1), None, None, Some (JStr ''validated''), Some (JStr ''Alwaly''), Some (JStr ''T1''))] \<and>
   snd (ls_updateTranslation \<lparr>dateNow = \<lambda>k. 1000, isoNow = \<lambda>k. ''T1''\<rparr> 7
        [''status'' \<mapsto> JStr ''validated'', ''validatedBy'' \<mapsto> JStr ''Alwaly'']
        \<lparr>translations_data = Some [], users_data = Some []\<rparr>) = Inl (NotFound 7) \<and>
   ls_rows (fst (ls_updateTranslation \<lparr>dateNow = \<lambda>k. 1000, isoNow = \<lambda>k. ''T1''\<rparr> 7
        [''status'' \<mapsto> JStr ''validated'', ''validatedBy'' \<mapsto> JStr ''Alwaly'']
        \<lparr>translations_data = Some [], users_data = Some []\<rparr>)) = []"
  by (simp add: idb_updateTranslation_def idb_get_def idb_put_def storeAtKey_def
        idb_getAllTranslations_def mergeUpdates_def map_add_def Let_def
        ls_updateTranslation_def ls_initDB_def ls_rows_def)

text \<open>
  C2 at a failing input. The IndexedDB import has no duplicate check: from an empty store,
  importing a text with one data row once leaves one record, importing it twice leaves
  two records with the same french and wolof.
\<close>

theorem idb_import_twice_adds_again:
  "map (\<lambda>r. (r ''id'', r ''french'', r ''wolof''))
     (idb_getAllTranslations (fst (idb_importTranslationsFromCSV \<lparr>dateNow = \<lambda>k. 1000, isoNow = \<lambda>k. ''T1''\<rparr>
        (''Wolof,French'' @ [CHR 0x0A] @ ''salam,bonjour'')
        \<lparr>translationsStore = \<lparr>records = [], keyGenerator = 1\<rparr>,
         usersStore = \<lparr>records = [], keyGenerator = 1\<rparr>\<rparr>))) =
     [(Some (JNum 1), Some (JStr ''bonjour''), Some (JStr ''salam''))] \<and>
   map (\<lambda>r. (r ''id'', r ''french'', r ''wolof''))
     (idb_getAllTranslations (fst (idb_importTranslationsFromCSV \<lparr>dateNow = \<lambda>k. 2000, isoNow = \<lambda>k. ''T2''\<rparr>
        (''Wolof,French'' @ [CHR 0x0A] @ ''salam,bonjour'')
        (fst (idb_importTranslationsFromCSV \<lparr>dateNow = \<lambda>k. 1000, isoNow = \<lambda>k. ''T1''\<rparr>
           (''Wolof,French'' @ [CHR 0x0A] @ ''salam,bonjour'')
           \<lparr>translationsStore = \<lparr>records = [], keyGenerator = 1\<rparr>,
            usersStore = \<lparr>records = [], keyGenerator = 1\<rparr>\<rparr>))))) =
     [(Some (JNum 1), Some (JStr ''bonjour''), Some (JStr ''salam'')),
      (Some (JNum 2), Some (JStr ''bonjour''), Some (JStr ''salam''))]"
  by (simp add: idb_importTranslationsFromCSV_def parseRow_def trim_def whiteSpaces_def stripStart_Nil stripStart_Cons Let_def
        idb_add_def storeAtKey_def idb_getAllTranslations_def newTranslation_def)

text \<open>
  C1 at failing inputs. From empty stores, a text whose two data rows carry the same pair
  leaves two records in the localStorage module (its check reads the stored array, which
  the loop has not written yet) and in the IndexedDB module (no check), and one row in the
  SQLite module; importing the text again leaves the localStorage module at two records,
  the SQLite module at one row and the IndexedDB module at four records. An update on an
  id that is not present throws \<open>NotFound\<close> in the localStorage module and succeeds,
  inserting a record, in the IndexedDB module.
\<close>

theorem backends_part_ways:
  "length (ls_rows (fst (ls_importTranslationsFromCSV \<lparr>dateNow = \<lambda>k. 1000, isoNow = \<lambda>k. ''T1''\<rparr>
        (''Wolof,French'' @ [CHR 0x0A] @ ''salam,bonjour'' @ [CHR 0x0A] @ ''salam,bonjour'')
        \<lparr>translations_data = None, users_data = None\<rparr>))) = 2 \<and>
   length (idb_getAllTranslations (fst (idb_importTranslationsFromCSV \<lparr>dateNow = \<lambda>k. 1000, isoNow = \<lambda>k. ''T1''\<rparr>
        (''Wolof,French'' @ [CHR 0x0A] @ ''salam,bonjour'' @ [CHR 0x0A] @ ''salam,bonjour'')
        \<lparr>translationsStore = \<lparr>records = [], keyGenerator = 1\<rparr>,
         usersStore = \<lparr>records = [], keyGenerator = 1\<rparr>\<rparr>))) = 2 \<and>
   length (sql_getAllTranslations (fst (sql_importTranslationsFromCSV \<lparr>dateNow = \<lambda>k. 1000, isoNow = \<lambda>k. ''T1''\<rparr>
        (''Wolof,French'' @ [CHR 0x0A] @ ''salam,bonjour'' @ [CHR 0x0A] @ ''salam,bonjour'')
        \<lparr>translationsTable = \<lparr>tableRows = [], lastRowid = 0\<rparr>,
         usersTable = \<lparr>tableRows = [], lastRowid = 0\<rparr>\<rparr>))) = 1 \<and>
   length (ls_rows (fst (ls_importTranslationsFromCSV \<lparr>dateNow = \<lambda>k. 2000, isoNow = \<lambda>k. ''T2''\<rparr>
        (''Wolof,French'' @ [CHR 0x0A] @ ''salam,bonjour'' @ [CHR 0x0A] @ ''salam,bonjour'')
        (fst (ls_importTranslationsFromCSV \<lparr>dateNow = \<lambda>k. 1000, isoNow = \<lambda>k. ''T1''\<rparr>
           (''Wolof,French'' @ [CHR 0x0A] @ ''salam,bonjour'' @ [CHR 0x0A] @ ''salam,bonjour'')
           \<lparr>translations_data = None, users_data = None\<rparr>))))) = 2 \<and>
   length (idb_getAllTranslations (fst (idb_importTranslationsFromCSV \<lparr>dateNow = \<lambda>k. 2000, isoNow = \<lambda>k. ''T2''\<rparr>
        (''Wolof,French'' @ [CHR 0x0A] @ ''salam,bonjour'' @ [CHR 0x0A] @ ''salam,bonjour'')
        (fst (idb_importTranslationsFromCSV \<lparr>dateNow = \<lambda>k. 1000, isoNow = \<lambda>k. ''T1''\<rparr>
           (''Wolof,French'' @ [CHR 0x0A] @ ''salam,bonjour'' @ [CHR 0x0A] @ ''salam,bonjour'')
           \<lparr>translationsStore = \<lparr>records = [], keyGenerator = 1\<rparr>,
            usersStore = \<lparr>records = [], keyGenerator = 1\<rparr>\<rparr>))))) = 4 \<and>
   length (sql_getAllTranslations (fst (sql_importTranslationsFromCSV \<lparr>dateNow = \<lambda>k. 2000, isoNow = \<lambda>k. ''T2''\<rparr>
        (''Wolof,French'' @ [CHR 0x0A] @ ''salam,bonjour'' @ [CHR 0x0A] @ ''salam,bonjour'')
        (fst (sql_importTranslationsFromCSV \<lparr>dateNow = \<lambda>k. 1000, isoNow = \<lambda>k. ''T1''\<rparr>
           (''Wolof,French'' @ [CHR 0x0A] @ ''salam,bonjour'' @ [CHR 0x0A] @ ''salam,bonjour'')
           \<lparr>translationsTable = \<lparr>tableRows = [], lastRowid = 0\<rparr>,
            usersTable = \<lparr>tableRows = [], lastRowid = 0\<rparr>\<rparr>))))) = 1 \<and>
   snd (ls_updateTranslation \<lparr>dateNow = \<lambda>k. 1000, isoNow = \<lambda>k. ''T1''\<rparr> 7
        [''status'' \<mapsto> JStr ''validated'']
        \<lparr>translations_data = None, users_data = None\<rparr>) = Inl (NotFound 7) \<and>
   snd (idb_updateTranslation \<lparr>dateNow = \<lambda>k. 1000, isoNow = \<lambda>k. ''T1''\<rparr> 7
        [''status'' \<mapsto> JStr ''validated'']
        \<lparr>translationsStore = \<lparr>records = [], keyGenerator = 1\<rparr>,
         usersStore = \<lparr>records = [], keyGenerator = 1\<rparr>\<rparr>) \<noteq> Inl (NotFound 7) \<and>
   length (idb_getAllTranslations (fst (idb_updateTranslation \<lparr>dateNow = \<lambda>k. 1000, isoNow = \<lambda>k. ''T1''\<rparr> 7
        [''status'' \<mapsto> JStr ''validated'']
        \<lparr>translationsStore = \<lparr>records = [], keyGenerator = 1\<rparr>,
         usersStore = \<lparr>records = [], keyGenerator = 1\<rparr>\<rparr>))) = 1"
proof -
  let ?csv = "''Wolof,French'' @ [CHR 0x0A] @ ''salam,bonjour'' @ [CHR 0x0A] @ ''salam,bonjour''"
  have dr: "dataRows ?csv = [(1, ''salam'', ''bonjour''), (2, ''salam'', ''bonjour'')]"
    by (simp add: dataRows_def rowsFrom_def specRow_def trim_def whiteSpaces_def stripStart_Nil stripStart_Cons Let_def)
  have a: "length (ls_rows (fst (ls_importTranslationsFromCSV c ?csv \<lparr>translations_data = None, users_data = None\<rparr>))) = 2"
    for c
    unfolding ls_rows_importTranslationsFromCSV dr
    by (simp add: ls_rows_def ls_inserted_def pairExists_def)
  have b: "length (ls_rows (fst (ls_importTranslationsFromCSV c' ?csv
             (fst (ls_importTranslationsFromCSV c ?csv \<lparr>translations_data = None, users_data = None\<rparr>))))) = 2"
    for c c'
    unfolding ls_import_twice by (rule a)
  let ?db = "\<lparr>translationsStore = \<lparr>records = [], keyGenerator = 1\<rparr>,
              usersStore = \<lparr>records = [], keyGenerator = 1\<rparr>\<rparr>"
  have k0: "keysBelowGenerator (translationsStore ?db)" by (simp add: keysBelowGenerator_def)
  have c0: "keyGenerator (translationsStore ?db) + int (length (dataRows ?csv)) \<le> 2 ^ 53 + 1"
    unfolding dr by simp
  have c: "length (idb_getAllTranslations (fst (idb_importTranslationsFromCSV c ?csv ?db))) = 2" for c
    unfolding idb_import_rows(2)[OF k0 c0] dr by (simp add: idb_getAllTranslations_def)
  have k1: "keysBelowGenerator (translationsStore (fst (idb_importTranslationsFromCSV c ?csv ?db)))" for c
    using idb_import_rows(2,3)[OF k0 c0, of c] unfolding dr
    by (simp add: keysBelowGenerator_def idb_getAllTranslations_def idb_record_def)
  have c1: "keyGenerator (translationsStore (fst (idb_importTranslationsFromCSV c ?csv ?db))) +
              int (length (dataRows ?csv)) \<le> 2 ^ 53 + 1" for c
    unfolding idb_import_rows(3)[OF k0 c0] dr by simp
  have d: "length (idb_getAllTranslations (fst (idb_importTranslationsFromCSV c' ?csv
             (fst (idb_importTranslationsFromCSV c ?csv ?db))))) = 4" for c c'
    unfolding idb_import_rows(2)[OF k1 c1] using c[of c] unfolding dr by simp
  let ?q = "\<lparr>translationsTable = \<lparr>tableRows = [], lastRowid = 0\<rparr>,
             usersTable = \<lparr>tableRows = [], lastRowid = 0\<rparr>\<rparr>"
  have e: "length (sql_getAllTranslations (fst (sql_importTranslationsFromCSV c ?csv ?q))) = 1" for c
    by (simp add: sql_importTranslationsFromCSV_def sql_insertTranslation_def sql_newRowid_def
          sql_getAllTranslations_def
          parseRow_def trim_def whiteSpaces_def stripStart_Nil stripStart_Cons Let_def)
  have f: "length (sql_getAllTranslations (fst (sql_importTranslationsFromCSV c' ?csv
             (fst (sql_importTranslationsFromCSV c ?csv ?q))))) = 1" for c c'
    by (simp add: sql_importTranslationsFromCSV_def sql_insertTranslation_def sql_newRowid_def
          sql_getAllTranslations_def
          parseRow_def trim_def whiteSpaces_def stripStart_Nil stripStart_Cons Let_def)
  have g: "snd (ls_updateTranslation \<lparr>dateNow = \<lambda>k. 1000, isoNow = \<lambda>k. ''T1''\<rparr> 7
        [''status'' \<mapsto> JStr ''validated'']
        \<lparr>translations_data = None, users_data = None\<rparr>) = Inl (NotFound 7)"
    by (simp add: ls_updateTranslation_def ls_initDB_def Let_def)
  have h: "snd (idb_updateTranslation \<lparr>dateNow = \<lambda>k. 1000, isoNow = \<lambda>k. ''T1''\<rparr> 7
        [''status'' \<mapsto> JStr ''validated'']
        \<lparr>translationsStore = \<lparr>records = [], keyGenerator = 1\<rparr>,
         usersStore = \<lparr>records = [], keyGenerator = 1\<rparr>\<rparr>) \<noteq> Inl (NotFound 7)"
    by (simp add: idb_updateTranslation_def idb_get_def idb_put_def mergeUpdates_def map_add_def Let_def)
  have i: "length (idb_getAllTranslations (fst (idb_updateTranslation \<lparr>dateNow = \<lambda>k. 1000, isoNow = \<lambda>k. ''T1''\<rparr> 7
        [''status'' \<mapsto> JStr ''validated'']
        \<lparr>translationsStore = \<lparr>records = [], keyGenerator = 1\<rparr>,
         usersStore = \<lparr>records = [], keyGenerator = 1\<rparr>\<rparr>))) = 1"
    by (simp add: idb_updateTranslation_def idb_get_def idb_put_def storeAtKey_def
          idb_getAllTranslations_def mergeUpdates_def map_add_def Let_def)
  show ?thesis using a b c d e f g h i by (simp only: simp_thms)
qed


end
